theory Spec2Isabelle
  imports Main "HOL-Library.AList" "HOL-Library.Sublist"
begin

section \<open>Phone-number authentication service: OTP and token lifecycle\<close>

text \<open>
  A shallow embedding of the Go service: the OTP manager
  (\<^verbatim>\<open>OTPService\<close>, \<^verbatim>\<open>OTPRepository\<close>), the token issuer
  (\<^verbatim>\<open>JWTService\<close>), the refresh-token ledger (\<^verbatim>\<open>RefreshTokenService\<close>,
  \<^verbatim>\<open>RefreshTokenRepository\<close>) and the HTTP handlers (\<^verbatim>\<open>AuthHandlers\<close>).

  The repository also keeps an older variant of the OTP and refresh-token services that
  stores its records in Redis; the embedding follows the variant on DynamoDB, which
  \<^verbatim>\<open>main\<close> wires to the repositories.

  Every function that touches the DynamoDB table, the clock or a random source takes the
  state of the outside world and returns it updated. Go's \<^verbatim>\<open>(value, error)\<close> returns are
  sums (\<open>Inl\<close> the error) or, for a bare \<^verbatim>\<open>error\<close>, an \<open>error option\<close>. Logging is left
  out: it changes nothing the service reads back.
\<close>

subsection \<open>Time\<close>

text \<open>
  A \<^verbatim>\<open>time.Time\<close> is the number of nanoseconds since the Unix epoch, a
  \<^verbatim>\<open>time.Duration\<close> a number of nanoseconds. \<^verbatim>\<open>t.Unix()\<close> and
  \<^verbatim>\<open>t.Format(time.RFC3339)\<close> keep the whole second only; an RFC3339 string is
  represented by the Unix second it denotes. One call of a service function reads the
  clock at a single instant \<open>now\<close>, passed as an argument. Times and durations are
  unbounded integers: nothing below comes near the range of \<^verbatim>\<open>int64\<close>.
\<close>

type_synonym time = int
type_synonym duration = int

definition Unix :: "time \<Rightarrow> int" where
  "Unix t = t div 1000000000"

definition of_Unix :: "int \<Rightarrow> time" where
  "of_Unix s = s * 1000000000"

definition After :: "time \<Rightarrow> time \<Rightarrow> bool" where
  "After t u = (u < t)"

definition Before :: "time \<Rightarrow> time \<Rightarrow> bool" where
  "Before t u = (t < u)"

subsection \<open>Errors\<close>

text \<open>
  One constructor for each error message of the source; a constructor with an argument
  wraps its cause (\<^verbatim>\<open>%w\<close>). \<open>ClientError\<close> is an error returned by the DynamoDB
  client, \<open>ReaderError\<close> one returned by \<^verbatim>\<open>crypto/rand\<close>.
\<close>

datatype error =
    ClientError
  | ReaderError
  | ErrPasswordTooLong
  | FailedToGenerateOTP error
  | FailedToHashOTP error
  | FailedToStoreOTP error
  | FailedToGetOTP error
  | FailedToDeleteOTP error
  | FailedToStoreTestOTP error
  | OTPNotFoundOrExpired
  | OTPExpired
  | MaximumAttemptsExceeded
  | InvalidOTP
  | FailedToGetUser error
  | FailedToCreateUser error
  | UserAlreadyExists
  | FailedToStoreRefreshToken error
  | FailedToGetRefreshToken error
  | FailedToDeleteRefreshToken error
  | RefreshTokenNotFound
  | FailedToRevokeRefreshToken error
  | FailedToMarkTokenRevoked error
  | FailedToQueryTokensByFamilyID error
  | TokenMalformed
  | TokenUnverifiable
  | TokenSignatureInvalid
  | TokenExpired
  | FailedToParseToken error
  | InvalidRefreshToken error
  | TokenIsNotARefreshToken

subsection \<open>Cryptographic primitives\<close>

text \<open>
  \<^verbatim>\<open>bcrypt\<close> and HMAC are modelled symbolically: a hash is the pair of the salt and
  the password it was computed from, and comparing a hash with a candidate succeeds
  exactly when the candidate is that password. \<^verbatim>\<open>GenerateFromPassword\<close> refuses a
  password of more than 72 bytes and draws its salt from the random source.
\<close>

datatype bcrypt_hash = Bcrypt nat string

fun bcrypt_CompareHashAndPassword :: "bcrypt_hash \<Rightarrow> string \<Rightarrow> bool" where
  "bcrypt_CompareHashAndPassword (Bcrypt salt password) candidate = (password = candidate)"

subsection \<open>Data model\<close>

record OTPConfig =
  Length :: int
  Expiry :: duration
  MaxAttempts :: int

text \<open>\<^verbatim>\<open>models.OTPData\<close>. \<open>Attempts\<close> is a Go \<^verbatim>\<open>int\<close>; it is only ever
  incremented below \<open>MaxAttempts\<close>, so it cannot overflow.\<close>

record OTPData =
  OTPHash :: bcrypt_hash
  otp_Phone :: string
  Attempts :: int
  otp_CreatedAt :: time
  otp_ExpiresAt :: time

text \<open>The item \<^verbatim>\<open>OTPRepository.Store\<close> writes under \<^verbatim>\<open>PK = "OTP#" + phone\<close>: the
  two times as RFC3339 strings, the TTL as Unix seconds.\<close>

record otp_item =
  item_OTPHash :: bcrypt_hash
  item_Phone :: string
  item_Attempts :: int
  item_CreatedAt :: int
  item_ExpiresAt :: int
  item_TTL :: int

text \<open>The item \<^verbatim>\<open>StoreTestOTP\<close> writes under \<^verbatim>\<open>PK = "OTP_TEST#" + phone\<close>.\<close>

record otp_test_item =
  test_OTP :: string
  test_ExpiresAt :: int
  test_TTL :: int

text \<open>\<^verbatim>\<open>models.RefreshTokenData\<close> and the item stored under
  \<^verbatim>\<open>PK = "REFRESH_TOKEN#" + jti\<close>.\<close>

record RefreshTokenData =
  rt_JTI :: string
  rt_UserID :: string
  rt_Phone :: string
  rt_FamilyID :: string
  rt_CreatedAt :: time
  rt_ExpiresAt :: time
  rt_Revoked :: bool

record token_item =
  ti_JTI :: string
  ti_UserID :: string
  ti_Phone :: string
  ti_FamilyID :: string
  ti_Revoked :: bool
  ti_CreatedAt :: int
  ti_ExpiresAt :: int
  ti_TTL :: int

text \<open>The marker \<^verbatim>\<open>MarkRevoked\<close> writes under \<^verbatim>\<open>PK = "REVOKED_TOKEN#" + jti\<close>.\<close>

record revoked_item =
  rv_RevokedAt :: int
  rv_TTL :: int

text \<open>\<^verbatim>\<open>models.User\<close>, stored under \<^verbatim>\<open>PK = "USER!" + phone\<close>.\<close>

record User =
  PhoneNumber :: string
  Name :: string
  user_CreatedAt :: time
  user_UpdatedAt :: time

subsection \<open>The outside world\<close>

text \<open>
  The single DynamoDB table is split by the prefix of the partition key; no two prefixes
  can produce the same key, so the five parts never overlap. The refresh-token part is an
  association list because \<^verbatim>\<open>GetByFamilyID\<close> scans it.

  \<open>faults\<close> says which calls of the DynamoDB client fail (by their number, counted in
  \<open>calls\<close>); \<open>entropy\<close> is what \<^verbatim>\<open>crypto/rand\<close> returns at each read (\<open>None\<close>: the
  reader fails) and \<open>drawn\<close> the number of reads so far; \<open>uuids\<close> is what
  \<^verbatim>\<open>uuid.New()\<close> returns at each call and \<open>minted\<close> the number of calls so far.
  A read returns what the latest successful write left. Deletion of expired items by
  the table's TTL sweep is an action of the environment, not of the service, and is not
  part of any function below.
\<close>

record world =
  otp_items :: "string \<rightharpoonup> otp_item"
  otp_test_items :: "string \<rightharpoonup> otp_test_item"
  token_items :: "(string \<times> token_item) list"
  revoked_items :: "string \<rightharpoonup> revoked_item"
  user_items :: "string \<rightharpoonup> User"
  faults :: "nat \<Rightarrow> bool"
  calls :: nat
  entropy :: "nat \<Rightarrow> nat option"
  drawn :: nat
  uuids :: "nat \<Rightarrow> string"
  minted :: nat

text \<open>One call of the DynamoDB client: whether it fails, and the world with the call counted.\<close>

definition client_call :: "world \<Rightarrow> bool \<times> world" where
  "client_call w = (faults w (calls w), w\<lparr>calls := Suc (calls w)\<rparr>)"

text \<open>One read of the random source.\<close>

definition rand_Read :: "world \<Rightarrow> nat option \<times> world" where
  "rand_Read w = (entropy w (drawn w), w\<lparr>drawn := Suc (drawn w)\<rparr>)"

text \<open>\<^verbatim>\<open>rand.Int(rand.Reader, big.NewInt(10))\<close>: a number below 10, or the reader's error.\<close>

definition rand_Int10 :: "world \<Rightarrow> (error + nat) \<times> world" where
  "rand_Int10 w =
     (case rand_Read w of
        (None, w1) \<Rightarrow> (Inl ReaderError, w1)
      | (Some v, w1) \<Rightarrow> (Inr (v mod 10), w1))"

definition uuid_New :: "world \<Rightarrow> string \<times> world" where
  "uuid_New w = (uuids w (minted w), w\<lparr>minted := Suc (minted w)\<rparr>)"

definition bcrypt_GenerateFromPassword :: "string \<Rightarrow> world \<Rightarrow> (error + bcrypt_hash) \<times> world" where
  "bcrypt_GenerateFromPassword password w =
     (if length password > 72 then (Inl ErrPasswordTooLong, w)
      else case rand_Read w of
             (None, w1) \<Rightarrow> (Inl ReaderError, w1)
           | (Some salt, w1) \<Rightarrow> (Inr (Bcrypt salt password), w1))"

subsection \<open>OTP repository\<close>

definition marshal_otp :: "OTPData \<Rightarrow> otp_item" where
  "marshal_otp otpData =
     \<lparr>item_OTPHash = OTPHash otpData,
      item_Phone = otp_Phone otpData,
      item_Attempts = Attempts otpData,
      item_CreatedAt = Unix (otp_CreatedAt otpData),
      item_ExpiresAt = Unix (otp_ExpiresAt otpData),
      item_TTL = Unix (otp_ExpiresAt otpData)\<rparr>"

text \<open>\<^verbatim>\<open>attributevalue.UnmarshalMap\<close> into \<^verbatim>\<open>models.OTPData\<close>: the fields by name, the
  times parsed back from their RFC3339 strings. It cannot fail on an item that
  \<^verbatim>\<open>Store\<close> wrote.\<close>

definition unmarshal_otp :: "otp_item \<Rightarrow> OTPData" where
  "unmarshal_otp item =
     \<lparr>OTPHash = item_OTPHash item,
      otp_Phone = item_Phone item,
      Attempts = item_Attempts item,
      otp_CreatedAt = of_Unix (item_CreatedAt item),
      otp_ExpiresAt = of_Unix (item_ExpiresAt item)\<rparr>"

definition OTPRepository_Store :: "string \<Rightarrow> OTPData \<Rightarrow> world \<Rightarrow> error option \<times> world" where
  "OTPRepository_Store phoneNumber otpData w =
     (case client_call w of
        (True, w1) \<Rightarrow> (Some (FailedToStoreOTP ClientError), w1)
      | (False, w1) \<Rightarrow>
          (None, w1\<lparr>otp_items := (otp_items w1)(phoneNumber \<mapsto> marshal_otp otpData)\<rparr>))"

definition OTPRepository_Get :: "string \<Rightarrow> world \<Rightarrow> (error + OTPData) \<times> world" where
  "OTPRepository_Get phoneNumber w =
     (case client_call w of
        (True, w1) \<Rightarrow> (Inl (FailedToGetOTP ClientError), w1)
      | (False, w1) \<Rightarrow>
          (case otp_items w1 phoneNumber of
             None \<Rightarrow> (Inl OTPNotFoundOrExpired, w1)
           | Some item \<Rightarrow> (Inr (unmarshal_otp item), w1)))"

definition OTPRepository_Delete :: "string \<Rightarrow> world \<Rightarrow> error option \<times> world" where
  "OTPRepository_Delete phoneNumber w =
     (case client_call w of
        (True, w1) \<Rightarrow> (Some (FailedToDeleteOTP ClientError), w1)
      | (False, w1) \<Rightarrow> (None, w1\<lparr>otp_items := (otp_items w1)(phoneNumber := None)\<rparr>))"

definition OTPRepository_StoreTestOTP ::
  "string \<Rightarrow> string \<Rightarrow> time \<Rightarrow> world \<Rightarrow> error option \<times> world" where
  "OTPRepository_StoreTestOTP phoneNumber otp expiresAt w =
     (case client_call w of
        (True, w1) \<Rightarrow> (Some (FailedToStoreTestOTP ClientError), w1)
      | (False, w1) \<Rightarrow>
          (None, w1\<lparr>otp_test_items := (otp_test_items w1)(phoneNumber \<mapsto>
             \<lparr>test_OTP = otp, test_ExpiresAt = Unix expiresAt, test_TTL = Unix expiresAt\<rparr>)\<rparr>))"

subsection \<open>OTP service\<close>

text \<open>The decimal digit \<^verbatim>\<open>num.String()\<close> prints for a number below 10 (it is applied
  to no other number).\<close>

definition digit_char :: "nat \<Rightarrow> char" where
  "digit_char d = ''0123456789'' ! d"

text \<open>The loop of \<^verbatim>\<open>generateRandomOTP\<close>, by the number of iterations left.\<close>

fun generateRandomOTP_loop :: "nat \<Rightarrow> string \<Rightarrow> world \<Rightarrow> (error + string) \<times> world" where
  "generateRandomOTP_loop 0 otp w = (Inr otp, w)"
| "generateRandomOTP_loop (Suc n) otp w =
     (case rand_Int10 w of
        (Inl err, w1) \<Rightarrow> (Inl err, w1)
      | (Inr num, w1) \<Rightarrow> generateRandomOTP_loop n (otp @ [digit_char num]) w1)"

text \<open>\<^verbatim>\<open>for i := 0; i < length; i++\<close> runs \<open>len\<close> times (the source's
  \<^verbatim>\<open>length\<close>), and not at all when it is zero or less.\<close>

definition generateRandomOTP :: "int \<Rightarrow> world \<Rightarrow> (error + string) \<times> world" where
  "generateRandomOTP len w = generateRandomOTP_loop (nat len) [] w"

definition OTPService_GenerateOTP ::
  "OTPConfig \<Rightarrow> time \<Rightarrow> string \<Rightarrow> world \<Rightarrow> (error + string) \<times> world" where
  "OTPService_GenerateOTP cfg now phoneNumber w =
     (case generateRandomOTP (Length cfg) w of
        (Inl err, w1) \<Rightarrow> (Inl (FailedToGenerateOTP err), w1)
      | (Inr otp, w1) \<Rightarrow>
          (case bcrypt_GenerateFromPassword otp w1 of
             (Inl err, w2) \<Rightarrow> (Inl (FailedToHashOTP err), w2)
           | (Inr hashedOTP, w2) \<Rightarrow>
               (let otpData = \<lparr>OTPHash = hashedOTP, otp_Phone = phoneNumber, Attempts = 0,
                               otp_CreatedAt = now, otp_ExpiresAt = now + Expiry cfg\<rparr>
                in case OTPRepository_Store phoneNumber otpData w2 of
                     (Some err, w3) \<Rightarrow> (Inl err, w3)
                   | (None, w3) \<Rightarrow>
                       (Inr otp,
                        snd (OTPRepository_StoreTestOTP phoneNumber otp
                               (otp_ExpiresAt otpData) w3)))))"

text \<open>\<^verbatim>\<open>VerifyOTP\<close> returns \<^verbatim>\<open>(bool, error)\<close>. The errors of \<^verbatim>\<open>Delete\<close> and of
  \<^verbatim>\<open>Store\<close> are dropped, as in the source.\<close>

definition OTPService_VerifyOTP ::
  "OTPConfig \<Rightarrow> time \<Rightarrow> string \<Rightarrow> string \<Rightarrow> world \<Rightarrow> (bool \<times> error option) \<times> world" where
  "OTPService_VerifyOTP cfg now phoneNumber otp w =
     (case OTPRepository_Get phoneNumber w of
        (Inl err, w1) \<Rightarrow> ((False, Some err), w1)
      | (Inr otpData, w1) \<Rightarrow>
          if After now (otp_ExpiresAt otpData) then
            ((False, Some OTPExpired), snd (OTPRepository_Delete phoneNumber w1))
          else if Attempts otpData \<ge> MaxAttempts cfg then
            ((False, Some MaximumAttemptsExceeded), snd (OTPRepository_Delete phoneNumber w1))
          else if \<not> bcrypt_CompareHashAndPassword (OTPHash otpData) otp then
            ((False, Some InvalidOTP),
             snd (OTPRepository_Store phoneNumber
                    (otpData\<lparr>Attempts := Attempts otpData + 1\<rparr>) w1))
          else
            ((True, None), snd (OTPRepository_Delete phoneNumber w1)))"

subsection \<open>Token issuer\<close>

text \<open>
  A token string is either not a JWT at all, or the compact form of a header (its
  signing method), the claims and a signature. The signature is symbolic: the HMAC of
  the header and claims under a key, by a method. \<^verbatim>\<open>SignedString\<close> with an HMAC method
  and a byte-slice key cannot fail. The times of the registered claims are
  \<^verbatim>\<open>NumericDate\<close>s, whole seconds.
\<close>

datatype signing_method = HS256 | HS384 | HS512 | OtherMethod string

record Claims =
  Phone :: string
  Type :: string
  JTI :: string
  Subject :: string
  IssuedAt :: int
  ExpiresAt :: int
  ID :: string

datatype signature = HMAC signing_method string Claims

datatype token_string = NotAToken string | Token signing_method Claims signature

definition NewNumericDate :: "time \<Rightarrow> int" where
  "NewNumericDate t = Unix t"

text \<open>The claims as their JSON form carries them. The field \<^verbatim>\<open>JTI\<close> and the registered
  \<^verbatim>\<open>ID\<close> have the same JSON key \<^verbatim>\<open>jti\<close>; \<^verbatim>\<open>encoding/json\<close> keeps the less
  nested of the two, \<^verbatim>\<open>JTI\<close>, and leaves \<^verbatim>\<open>ID\<close> out, so that it is empty after
  decoding.\<close>

definition json_claims :: "Claims \<Rightarrow> Claims" where
  "json_claims claims = claims\<lparr>ID := []\<rparr>"

definition SignedString :: "signing_method \<Rightarrow> Claims \<Rightarrow> string \<Rightarrow> token_string" where
  "SignedString method claims key =
     Token method (json_claims claims) (HMAC method key (json_claims claims))"

fun isSigningMethodHMAC :: "signing_method \<Rightarrow> bool" where
  "isSigningMethodHMAC HS256 = True"
| "isSigningMethodHMAC HS384 = True"
| "isSigningMethodHMAC HS512 = True"
| "isSigningMethodHMAC (OtherMethod alg) = False"

record JWTService =
  secretKey :: string
  accessExpiry :: duration
  refreshExpiry :: duration

record TokenPair =
  AccessToken :: token_string
  RefreshToken :: token_string
  TokenType :: string
  ExpiresIn :: int

text \<open>\<^verbatim>\<open>int64(d.Seconds())\<close>: the whole seconds of a duration, rounded towards zero.\<close>

definition Seconds :: "duration \<Rightarrow> int" where
  "Seconds d = sgn d * (\<bar>d\<bar> div 1000000000)"

text \<open>\<^verbatim>\<open>jwt.ParseWithClaims\<close> (version 5) with the key function of \<^verbatim>\<open>VerifyToken\<close>:
  the string must be a JWT, the key function refuses every method that is not HMAC, the
  signature must be the HMAC under the returned key, and the token is valid while the
  current time is before \<^verbatim>\<open>exp\<close>. A token parsed without error is valid and its
  claims have the expected type, so \<^verbatim>\<open>VerifyToken\<close> never takes its
  \<^verbatim>\<open>invalid token\<close> branch.\<close>

fun jwt_ParseWithClaims :: "string \<Rightarrow> time \<Rightarrow> token_string \<Rightarrow> error + Claims" where
  "jwt_ParseWithClaims key now (NotAToken s) = Inl TokenMalformed"
| "jwt_ParseWithClaims key now (Token method claims sig) =
     (if \<not> isSigningMethodHMAC method then Inl TokenUnverifiable
      else if sig \<noteq> HMAC method key claims then Inl TokenSignatureInvalid
      else if \<not> Before now (of_Unix (ExpiresAt claims)) then Inl TokenExpired
      else Inr (json_claims claims))"

definition JWTService_VerifyToken :: "JWTService \<Rightarrow> time \<Rightarrow> token_string \<Rightarrow> error + Claims" where
  "JWTService_VerifyToken s now tokenString =
     (case jwt_ParseWithClaims (secretKey s) now tokenString of
        Inl err \<Rightarrow> Inl (FailedToParseToken err)
      | Inr claims \<Rightarrow> Inr claims)"

definition JWTService_GenerateAccessToken ::
  "JWTService \<Rightarrow> time \<Rightarrow> string \<Rightarrow> world \<Rightarrow> (error + TokenPair \<times> string) \<times> world" where
  "JWTService_GenerateAccessToken s now phoneNumber w =
     (let (accessJTI, w1) = uuid_New w;
          (refreshJTI, w2) = uuid_New w1;
          (familyID, w3) = uuid_New w2;
          accessClaims = \<lparr>Phone = phoneNumber, Type = ''access'', JTI = accessJTI,
                          Subject = phoneNumber, IssuedAt = NewNumericDate now,
                          ExpiresAt = NewNumericDate (now + accessExpiry s), ID = accessJTI\<rparr>;
          accessTokenString = SignedString HS256 accessClaims (secretKey s);
          refreshClaims = \<lparr>Phone = phoneNumber, Type = ''refresh'', JTI = refreshJTI,
                           Subject = phoneNumber, IssuedAt = NewNumericDate now,
                           ExpiresAt = NewNumericDate (now + refreshExpiry s), ID = refreshJTI\<rparr>;
          refreshTokenString = SignedString HS256 refreshClaims (secretKey s)
      in (Inr (\<lparr>AccessToken = accessTokenString, RefreshToken = refreshTokenString,
                 TokenType = ''Bearer'', ExpiresIn = Seconds (accessExpiry s)\<rparr>, familyID), w3))"

definition JWTService_GenerateAccessTokenWithFamily ::
  "JWTService \<Rightarrow> time \<Rightarrow> string \<Rightarrow> string \<Rightarrow> world \<Rightarrow> (error + TokenPair \<times> string) \<times> world" where
  "JWTService_GenerateAccessTokenWithFamily s now phoneNumber familyID w =
     (let (accessJTI, w1) = uuid_New w;
          (refreshJTI, w2) = uuid_New w1;
          (familyID, w3) = (if familyID = [] then uuid_New w2 else (familyID, w2));
          accessClaims = \<lparr>Phone = phoneNumber, Type = ''access'', JTI = accessJTI,
                          Subject = phoneNumber, IssuedAt = NewNumericDate now,
                          ExpiresAt = NewNumericDate (now + accessExpiry s), ID = accessJTI\<rparr>;
          accessTokenString = SignedString HS256 accessClaims (secretKey s);
          refreshClaims = \<lparr>Phone = phoneNumber, Type = ''refresh'', JTI = refreshJTI,
                           Subject = phoneNumber, IssuedAt = NewNumericDate now,
                           ExpiresAt = NewNumericDate (now + refreshExpiry s), ID = refreshJTI\<rparr>;
          refreshTokenString = SignedString HS256 refreshClaims (secretKey s)
      in (Inr (\<lparr>AccessToken = accessTokenString, RefreshToken = refreshTokenString,
                 TokenType = ''Bearer'', ExpiresIn = Seconds (accessExpiry s)\<rparr>, familyID), w3))"

definition JWTService_RefreshTokens ::
  "JWTService \<Rightarrow> time \<Rightarrow> token_string \<Rightarrow> string \<Rightarrow> world \<Rightarrow> (error + TokenPair \<times> string) \<times> world" where
  "JWTService_RefreshTokens s now refreshTokenString familyID w =
     (case JWTService_VerifyToken s now refreshTokenString of
        Inl err \<Rightarrow> (Inl (InvalidRefreshToken err), w)
      | Inr claims \<Rightarrow>
          if Type claims \<noteq> ''refresh'' then (Inl TokenIsNotARefreshToken, w)
          else JWTService_GenerateAccessTokenWithFamily s now (Phone claims) familyID w)"

subsection \<open>Refresh-token repository\<close>

definition marshal_token :: "RefreshTokenData \<Rightarrow> token_item" where
  "marshal_token tokenData =
     \<lparr>ti_JTI = rt_JTI tokenData,
      ti_UserID = rt_UserID tokenData,
      ti_Phone = rt_Phone tokenData,
      ti_FamilyID = rt_FamilyID tokenData,
      ti_Revoked = rt_Revoked tokenData,
      ti_CreatedAt = Unix (rt_CreatedAt tokenData),
      ti_ExpiresAt = Unix (rt_ExpiresAt tokenData),
      ti_TTL = Unix (rt_ExpiresAt tokenData)\<rparr>"

definition unmarshal_token :: "token_item \<Rightarrow> RefreshTokenData" where
  "unmarshal_token item =
     \<lparr>rt_JTI = ti_JTI item,
      rt_UserID = ti_UserID item,
      rt_Phone = ti_Phone item,
      rt_FamilyID = ti_FamilyID item,
      rt_CreatedAt = of_Unix (ti_CreatedAt item),
      rt_ExpiresAt = of_Unix (ti_ExpiresAt item),
      rt_Revoked = ti_Revoked item\<rparr>"

definition RefreshTokenRepository_Store :: "RefreshTokenData \<Rightarrow> world \<Rightarrow> error option \<times> world" where
  "RefreshTokenRepository_Store tokenData w =
     (case client_call w of
        (True, w1) \<Rightarrow> (Some (FailedToStoreRefreshToken ClientError), w1)
      | (False, w1) \<Rightarrow>
          (None, w1\<lparr>token_items :=
                      AList.update (rt_JTI tokenData) (marshal_token tokenData) (token_items w1)\<rparr>))"

definition RefreshTokenRepository_Get :: "string \<Rightarrow> world \<Rightarrow> (error + RefreshTokenData) \<times> world" where
  "RefreshTokenRepository_Get jti w =
     (case client_call w of
        (True, w1) \<Rightarrow> (Inl (FailedToGetRefreshToken ClientError), w1)
      | (False, w1) \<Rightarrow>
          (case map_of (token_items w1) jti of
             None \<Rightarrow> (Inl RefreshTokenNotFound, w1)
           | Some item \<Rightarrow> (Inr (unmarshal_token item), w1)))"

definition RefreshTokenRepository_Delete :: "string \<Rightarrow> world \<Rightarrow> error option \<times> world" where
  "RefreshTokenRepository_Delete jti w =
     (case client_call w of
        (True, w1) \<Rightarrow> (Some (FailedToDeleteRefreshToken ClientError), w1)
      | (False, w1) \<Rightarrow> (None, w1\<lparr>token_items := AList.delete jti (token_items w1)\<rparr>))"

definition RefreshTokenRepository_IsRevoked :: "string \<Rightarrow> world \<Rightarrow> (error + bool) \<times> world" where
  "RefreshTokenRepository_IsRevoked jti w =
     (case client_call w of
        (True, w1) \<Rightarrow> (Inl ClientError, w1)
      | (False, w1) \<Rightarrow> (Inr (revoked_items w1 jti \<noteq> None), w1))"

definition RefreshTokenRepository_MarkRevoked ::
  "time \<Rightarrow> string \<Rightarrow> time \<Rightarrow> world \<Rightarrow> error option \<times> world" where
  "RefreshTokenRepository_MarkRevoked now jti expiresAt w =
     (case client_call w of
        (True, w1) \<Rightarrow> (Some (FailedToMarkTokenRevoked ClientError), w1)
      | (False, w1) \<Rightarrow>
          (None, w1\<lparr>revoked_items := (revoked_items w1)(jti \<mapsto>
                      \<lparr>rv_RevokedAt = Unix now, rv_TTL = Unix expiresAt\<rparr>)\<rparr>))"

text \<open>The scan keeps the refresh-token items whose \<^verbatim>\<open>FamilyID\<close> is the one asked for
  (one page of results, as the source reads).\<close>

definition RefreshTokenRepository_GetByFamilyID ::
  "string \<Rightarrow> world \<Rightarrow> (error + RefreshTokenData list) \<times> world" where
  "RefreshTokenRepository_GetByFamilyID familyID w =
     (case client_call w of
        (True, w1) \<Rightarrow> (Inl (FailedToQueryTokensByFamilyID ClientError), w1)
      | (False, w1) \<Rightarrow>
          (Inr (map (unmarshal_token \<circ> snd)
                  (filter (\<lambda>(pk, item). ti_FamilyID item = familyID) (token_items w1))), w1))"

subsection \<open>Refresh-token service\<close>

definition RefreshTokenService_Store ::
  "time \<Rightarrow> string \<Rightarrow> string \<Rightarrow> string \<Rightarrow> string \<Rightarrow> time \<Rightarrow> world \<Rightarrow> error option \<times> world" where
  "RefreshTokenService_Store now jti userID phone familyID expiresAt w =
     RefreshTokenRepository_Store
       \<lparr>rt_JTI = jti, rt_UserID = userID, rt_Phone = phone, rt_FamilyID = familyID,
        rt_CreatedAt = now, rt_ExpiresAt = expiresAt, rt_Revoked = False\<rparr> w"

definition RefreshTokenService_Get :: "string \<Rightarrow> world \<Rightarrow> (error + RefreshTokenData) \<times> world" where
  "RefreshTokenService_Get jti w = RefreshTokenRepository_Get jti w"

definition RefreshTokenService_Revoke :: "time \<Rightarrow> string \<Rightarrow> world \<Rightarrow> error option \<times> world" where
  "RefreshTokenService_Revoke now jti w =
     (case RefreshTokenService_Get jti w of
        (Inl err, w1) \<Rightarrow> (Some err, w1)
      | (Inr tokenData, w1) \<Rightarrow>
          (case RefreshTokenRepository_Store (tokenData\<lparr>rt_Revoked := True\<rparr>) w1 of
             (Some err, w2) \<Rightarrow> (Some (FailedToRevokeRefreshToken err), w2)
           | (None, w2) \<Rightarrow>
               (case RefreshTokenRepository_MarkRevoked now jti (rt_ExpiresAt tokenData) w2 of
                  (Some err, w3) \<Rightarrow> (Some (FailedToMarkTokenRevoked err), w3)
                | (None, w3) \<Rightarrow> (None, w3))))"

definition RefreshTokenService_IsRevoked :: "string \<Rightarrow> world \<Rightarrow> (error + bool) \<times> world" where
  "RefreshTokenService_IsRevoked jti w = RefreshTokenRepository_IsRevoked jti w"

text \<open>The loop of \<^verbatim>\<open>RevokeFamily\<close>: an error of \<^verbatim>\<open>Revoke\<close> is logged and the loop goes on.\<close>

fun RevokeFamily_loop :: "time \<Rightarrow> RefreshTokenData list \<Rightarrow> world \<Rightarrow> world" where
  "RevokeFamily_loop now [] w = w"
| "RevokeFamily_loop now (token # tokens) w =
     RevokeFamily_loop now tokens (snd (RefreshTokenService_Revoke now (rt_JTI token) w))"

definition RefreshTokenService_RevokeFamily :: "time \<Rightarrow> string \<Rightarrow> world \<Rightarrow> error option \<times> world" where
  "RefreshTokenService_RevokeFamily now familyID w =
     (case RefreshTokenRepository_GetByFamilyID familyID w of
        (Inl err, w1) \<Rightarrow> (Some err, w1)
      | (Inr tokens, w1) \<Rightarrow> (None, RevokeFamily_loop now tokens w1))"

subsection \<open>User repository\<close>

text \<open>\<^verbatim>\<open>GetByPhoneNumber\<close> returns \<^verbatim>\<open>(nil, nil)\<close> for an unknown user; the phone number of
  a found user is read back from the partition key when the key is longer than its
  five-character prefix.\<close>

definition UserRepository_GetByPhoneNumber :: "string \<Rightarrow> world \<Rightarrow> (error + User option) \<times> world" where
  "UserRepository_GetByPhoneNumber phoneNumber w =
     (case client_call w of
        (True, w1) \<Rightarrow> (Inl (FailedToGetUser ClientError), w1)
      | (False, w1) \<Rightarrow>
          (case user_items w1 phoneNumber of
             None \<Rightarrow> (Inr None, w1)
           | Some dbUser \<Rightarrow>
               (Inr (Some (if length (''USER!'' @ phoneNumber) > 5
                           then dbUser\<lparr>PhoneNumber := drop 5 (''USER!'' @ phoneNumber)\<rparr>
                           else dbUser)), w1)))"

text \<open>\<^verbatim>\<open>Create\<close> writes only if no item has the key
  (\<^verbatim>\<open>attribute_not_exists(PK)\<close>); it returns the user with its two times set.\<close>

definition UserRepository_Create :: "time \<Rightarrow> User \<Rightarrow> world \<Rightarrow> (error + User) \<times> world" where
  "UserRepository_Create now user w =
     (let user = user\<lparr>user_CreatedAt := now, user_UpdatedAt := now\<rparr>
      in case client_call w of
           (True, w1) \<Rightarrow> (Inl (FailedToCreateUser ClientError), w1)
         | (False, w1) \<Rightarrow>
             if user_items w1 (PhoneNumber user) \<noteq> None then (Inl UserAlreadyExists, w1)
             else (Inr user, w1\<lparr>user_items := (user_items w1)(PhoneNumber user \<mapsto> user)\<rparr>))"

definition UserRepository_GetOrCreate :: "time \<Rightarrow> string \<Rightarrow> world \<Rightarrow> (error + User) \<times> world" where
  "UserRepository_GetOrCreate now phoneNumber w =
     (case UserRepository_GetByPhoneNumber phoneNumber w of
        (Inl err, w1) \<Rightarrow> (Inl err, w1)
      | (Inr (Some user), w1) \<Rightarrow> (Inr user, w1)
      | (Inr None, w1) \<Rightarrow>
          UserRepository_Create now
            \<lparr>PhoneNumber = phoneNumber, Name = [], user_CreatedAt = 0, user_UpdatedAt = 0\<rparr> w1)"

subsection \<open>String helpers\<close>

text \<open>
  A Go string is its UTF-8 bytes. \<^verbatim>\<open>strings.TrimSpace\<close> removes the leading and the
  trailing white-space runes (\<^verbatim>\<open>unicode.IsSpace\<close>); \<open>space_runes\<close> lists their
  encodings: the six ASCII ones, U+0085, U+00A0, U+1680, U+2000 to U+200A, U+2028,
  U+2029, U+202F, U+205F and U+3000.
\<close>

definition space_runes :: "string list" where
  "space_runes =
     [[CHR 0x09], [CHR 0x0A], [CHR 0x0B], [CHR 0x0C], [CHR 0x0D], [CHR 0x20],
      [CHR 0xC2, CHR 0x85], [CHR 0xC2, CHR 0xA0],
      [CHR 0xE1, CHR 0x9A, CHR 0x80],
      [CHR 0xE2, CHR 0x80, CHR 0x80], [CHR 0xE2, CHR 0x80, CHR 0x81],
      [CHR 0xE2, CHR 0x80, CHR 0x82], [CHR 0xE2, CHR 0x80, CHR 0x83],
      [CHR 0xE2, CHR 0x80, CHR 0x84], [CHR 0xE2, CHR 0x80, CHR 0x85],
      [CHR 0xE2, CHR 0x80, CHR 0x86], [CHR 0xE2, CHR 0x80, CHR 0x87],
      [CHR 0xE2, CHR 0x80, CHR 0x88], [CHR 0xE2, CHR 0x80, CHR 0x89],
      [CHR 0xE2, CHR 0x80, CHR 0x8A],
      [CHR 0xE2, CHR 0x80, CHR 0xA8], [CHR 0xE2, CHR 0x80, CHR 0xA9],
      [CHR 0xE2, CHR 0x80, CHR 0xAF], [CHR 0xE2, CHR 0x81, CHR 0x9F],
      [CHR 0xE3, CHR 0x80, CHR 0x80]]"

text \<open>Remove from the front of \<open>s\<close>, as long as there is one, a non-empty member of
  \<open>runes\<close>.\<close>

function strip_runes :: "string list \<Rightarrow> string \<Rightarrow> string" where
  "strip_runes runes s =
     (case find (\<lambda>r. r \<noteq> [] \<and> prefix r s) runes of
        None \<Rightarrow> s
      | Some r \<Rightarrow> strip_runes runes (drop (length r) s))"
  by pat_completeness auto
termination
proof (relation "measure (\<lambda>(runes, s). length s)")
  show "wf (measure (\<lambda>(runes, s). length s))" by simp
next
  fix runes :: "string list" and s r :: string
  assume "find (\<lambda>r. r \<noteq> [] \<and> prefix r s) runes = Some r"
  then have "r \<noteq> []" and "prefix r s"
    by (auto simp: find_Some_iff)
  then have "s \<noteq> []" by auto
  with \<open>r \<noteq> []\<close> show "((runes, drop (length r) s), (runes, s)) \<in> measure (\<lambda>(runes, s). length s)"
    by simp
qed

declare strip_runes.simps [simp del]

definition TrimLeft :: "string \<Rightarrow> string" where
  "TrimLeft s = strip_runes space_runes s"

definition TrimRight :: "string \<Rightarrow> string" where
  "TrimRight s = rev (strip_runes (map rev space_runes) (rev s))"

definition TrimSpace :: "string \<Rightarrow> string" where
  "TrimSpace s = TrimRight (TrimLeft s)"

definition HasPrefix :: "string \<Rightarrow> string \<Rightarrow> bool" where
  "HasPrefix s pre = prefix pre s"

definition isDigit :: "char \<Rightarrow> bool" where
  "isDigit c = (c \<in> set ''0123456789'')"

text \<open>The regular expression \<^verbatim>\<open>^\+[1-9]\d{1,14}$\<close>: a plus sign, one digit from 1 to 9,
  then between one and fourteen digits, and nothing else.\<close>

definition isValidPhoneNumber :: "string \<Rightarrow> bool" where
  "isValidPhoneNumber phone =
     (case phone of
        sign # first # digits \<Rightarrow>
          sign = CHR ''+'' \<and> first \<in> set ''123456789'' \<and>
          1 \<le> length digits \<and> length digits \<le> 14 \<and> list_all isDigit digits
      | _ \<Rightarrow> False)"

subsection \<open>HTTP handlers\<close>

text \<open>
  A handler takes the decoded JSON body of the request (\<open>None\<close> when decoding fails;
  a field the body lacks is the empty string) and returns the response, a status code
  and a body, with the world.
\<close>

record InitiateOTPRequest =
  init_PhoneNumber :: string

record VerifyOTPRequest =
  verify_PhoneNumber :: string
  verify_OTP :: string

record RefreshTokenRequest =
  refresh_RefreshToken :: token_string

record UserResponse =
  resp_PhoneNumber :: string
  resp_Name :: string

datatype body =
    ErrorResponse string string
  | InitiateOTPResponse string
  | VerifyOTPResponse token_string token_string string int UserResponse
  | RefreshTokenResponse token_string token_string string int

type_synonym response = "nat \<times> body"

definition respondWithJSON :: "nat \<Rightarrow> body \<Rightarrow> response" where
  "respondWithJSON status payload = (status, payload)"

definition respondWithError :: "nat \<Rightarrow> string \<Rightarrow> string \<Rightarrow> response" where
  "respondWithError status code message = respondWithJSON status (ErrorResponse code message)"

record AuthHandlers =
  otpService :: OTPConfig
  jwtService :: JWTService

definition AuthHandlers_InitiateOTP ::
  "AuthHandlers \<Rightarrow> time \<Rightarrow> InitiateOTPRequest option \<Rightarrow> world \<Rightarrow> response \<times> world" where
  "AuthHandlers_InitiateOTP h now request w =
     (case request of
        None \<Rightarrow> (respondWithError 400 ''INVALID_REQUEST'' ''Invalid request body'', w)
      | Some req \<Rightarrow>
          (let phoneNumber = TrimSpace (init_PhoneNumber req)
           in if \<not> isValidPhoneNumber phoneNumber then
                (respondWithError 400 ''INVALID_PHONE'' ''Invalid phone number format'', w)
              else
                (let phoneNumber = (if \<not> HasPrefix phoneNumber ''+''
                                    then ''+'' @ phoneNumber else phoneNumber)
                 in case OTPService_GenerateOTP (otpService h) now phoneNumber w of
                      (Inl err, w1) \<Rightarrow>
                        (respondWithError 500 ''OTP_GENERATION_FAILED'' ''Failed to generate OTP'', w1)
                    | (Inr otp, w1) \<Rightarrow>
                        (respondWithJSON 200 (InitiateOTPResponse ''OTP sent successfully''), w1))))"

definition AuthHandlers_VerifyOTP ::
  "AuthHandlers \<Rightarrow> time \<Rightarrow> VerifyOTPRequest option \<Rightarrow> world \<Rightarrow> response \<times> world" where
  "AuthHandlers_VerifyOTP h now request w =
     (case request of
        None \<Rightarrow> (respondWithError 400 ''INVALID_REQUEST'' ''Invalid request body'', w)
      | Some req \<Rightarrow>
          (let phoneNumber = TrimSpace (verify_PhoneNumber req);
               otp = TrimSpace (verify_OTP req);
               phoneNumber = (if \<not> HasPrefix phoneNumber ''+''
                              then ''+'' @ phoneNumber else phoneNumber)
           in if \<not> isValidPhoneNumber phoneNumber then
                (respondWithError 400 ''INVALID_PHONE'' ''Invalid phone number format'', w)
              else if length otp < 4 \<or> length otp > 8 then
                (respondWithError 400 ''INVALID_OTP'' ''Invalid OTP format'', w)
              else
                (case OTPService_VerifyOTP (otpService h) now phoneNumber otp w of
                   ((valid, err), w1) \<Rightarrow>
                     if err \<noteq> None \<or> \<not> valid then
                       (respondWithError 401 ''INVALID_OTP'' ''Invalid or expired OTP'', w1)
                     else
                       (case UserRepository_GetOrCreate now phoneNumber w1 of
                          (Inl err, w2) \<Rightarrow>
                            (respondWithError 500 ''USER_CREATION_FAILED''
                               ''Failed to create user'', w2)
                        | (Inr user, w2) \<Rightarrow>
                            (case JWTService_GenerateAccessToken (jwtService h) now phoneNumber w2 of
                               (Inl err, w3) \<Rightarrow>
                                 (respondWithError 500 ''TOKEN_GENERATION_FAILED''
                                    ''Failed to generate tokens'', w3)
                             | (Inr (tokenPair, familyID), w3) \<Rightarrow>
                                 (case JWTService_VerifyToken (jwtService h) now
                                         (RefreshToken tokenPair) of
                                    Inl err \<Rightarrow>
                                      (respondWithError 500 ''TOKEN_GENERATION_FAILED''
                                         ''Failed to generate tokens'', w3)
                                  | Inr claims \<Rightarrow>
                                      (respondWithJSON 200
                                         (VerifyOTPResponse (AccessToken tokenPair)
                                            (RefreshToken tokenPair) (TokenType tokenPair)
                                            (ExpiresIn tokenPair)
                                            \<lparr>resp_PhoneNumber = PhoneNumber user,
                                             resp_Name = Name user\<rparr>),
                                       snd (RefreshTokenService_Store now (JTI claims)
                                              phoneNumber phoneNumber familyID
                                              (of_Unix (ExpiresAt claims)) w3))))))))"

text \<open>\<^verbatim>\<open>RefreshToken\<close>. The token data is \<^verbatim>\<open>nil\<close> exactly when \<^verbatim>\<open>Get\<close> returned an
  error; the error of \<^verbatim>\<open>Revoke\<close> and that of \<^verbatim>\<open>Store\<close> are dropped.\<close>

definition AuthHandlers_RefreshToken ::
  "AuthHandlers \<Rightarrow> time \<Rightarrow> RefreshTokenRequest option \<Rightarrow> world \<Rightarrow> response \<times> world" where
  "AuthHandlers_RefreshToken h now request w =
     (case request of
        None \<Rightarrow> (respondWithError 400 ''INVALID_REQUEST'' ''Invalid request body'', w)
      | Some req \<Rightarrow>
          if refresh_RefreshToken req = NotAToken [] then
            (respondWithError 400 ''MISSING_TOKEN'' ''Refresh token is required'', w)
          else
            (case JWTService_VerifyToken (jwtService h) now (refresh_RefreshToken req) of
               Inl err \<Rightarrow> (respondWithError 401 ''INVALID_TOKEN'' ''Invalid refresh token'', w)
             | Inr claims \<Rightarrow>
                 if Type claims \<noteq> ''refresh'' then
                   (respondWithError 401 ''INVALID_TOKEN_TYPE'' ''Token is not a refresh token'', w)
                 else
                   (case RefreshTokenService_IsRevoked (JTI claims) w of
                      (Inr True, w1) \<Rightarrow>
                        (respondWithError 401 ''TOKEN_REVOKED'' ''Refresh token has been revoked'', w1)
                    | (revoked, w1) \<Rightarrow>
                        (case RefreshTokenService_Get (JTI claims) w1 of
                           (tokenData, w2) \<Rightarrow>
                             (let w3 = (case tokenData of
                                          Inr found \<Rightarrow>
                                            snd (RefreshTokenService_Revoke now (JTI claims) w2)
                                        | Inl err \<Rightarrow> w2);
                                  familyID = (case tokenData of
                                                Inr found \<Rightarrow> rt_FamilyID found
                                              | Inl err \<Rightarrow> [])
                              in case JWTService_RefreshTokens (jwtService h) now
                                        (refresh_RefreshToken req) familyID w3 of
                                   (Inl err, w4) \<Rightarrow>
                                     (respondWithError 500 ''TOKEN_GENERATION_FAILED''
                                        ''Failed to generate tokens'', w4)
                                 | (Inr (newTokenPair, newFamilyID), w4) \<Rightarrow>
                                     (case JWTService_VerifyToken (jwtService h) now
                                             (RefreshToken newTokenPair) of
                                        Inl err \<Rightarrow>
                                          (respondWithError 500 ''TOKEN_GENERATION_FAILED''
                                             ''Failed to generate tokens'', w4)
                                      | Inr newClaims \<Rightarrow>
                                          (respondWithJSON 200
                                             (RefreshTokenResponse (AccessToken newTokenPair)
                                                (RefreshToken newTokenPair)
                                                (TokenType newTokenPair) (ExpiresIn newTokenPair)),
                                           snd (RefreshTokenService_Store now (JTI newClaims)
                                                  (Phone claims) (Phone claims) newFamilyID
                                                  (of_Unix (ExpiresAt newClaims)) w4))))))))"

subsection \<open>Authentication middleware\<close>




subsection \<open>Clients\<close>

text \<open>A client that calls \<^verbatim>\<open>VerifyOTP\<close> for one phone number once for each pair of a
  time and a candidate, in order; it returns what each call returned.\<close>

fun VerifyOTP_run ::
  "OTPConfig \<Rightarrow> string \<Rightarrow> (time \<times> string) list \<Rightarrow> world \<Rightarrow> (bool \<times> error option) list \<times> world" where
  "VerifyOTP_run cfg phoneNumber [] w = ([], w)"
| "VerifyOTP_run cfg phoneNumber ((now, otp) # rest) w =
     (case OTPService_VerifyOTP cfg now phoneNumber otp w of
        (r, w1) \<Rightarrow>
          (case VerifyOTP_run cfg phoneNumber rest w1 of
             (rs, w2) \<Rightarrow> (r # rs, w2)))"

text \<open>The operations of the refresh-token ledger that write a record, and a client that
  runs a list of them, each at its own time.\<close>

datatype ledger_op =
    Store string string string string time
  | Revoke string
  | RevokeFamily string

fun ledger_step :: "time \<times> ledger_op \<Rightarrow> world \<Rightarrow> world" where
  "ledger_step (now, Store jti userID phone familyID expiresAt) w =
     snd (RefreshTokenService_Store now jti userID phone familyID expiresAt w)"
| "ledger_step (now, Revoke jti) w = snd (RefreshTokenService_Revoke now jti w)"
| "ledger_step (now, RevokeFamily familyID) w =
     snd (RefreshTokenService_RevokeFamily now familyID w)"

fun ledger_run :: "(time \<times> ledger_op) list \<Rightarrow> world \<Rightarrow> world" where
  "ledger_run [] w = w"
| "ledger_run (op # ops) w = ledger_run ops (ledger_step op w)"

fun stores_jti :: "string \<Rightarrow> time \<times> ledger_op \<Rightarrow> bool" where
  "stores_jti j (now, Store jti userID phone familyID expiresAt) = (jti = j)"
| "stores_jti j (now, Revoke jti) = False"
| "stores_jti j (now, RevokeFamily familyID) = False"

text \<open>The claims of the refresh token that \<^verbatim>\<open>GenerateAccessTokenWithFamily\<close> mints
  for a phone number, as the token carries them: its identifier is the second UUID
  drawn.\<close>

definition refreshClaims_of :: "JWTService \<Rightarrow> time \<Rightarrow> string \<Rightarrow> world \<Rightarrow> Claims" where
  "refreshClaims_of s now phone w =
     \<lparr>Phone = phone, Type = ''refresh'', JTI = uuids w (Suc (minted w)), Subject = phone,
      IssuedAt = NewNumericDate now, ExpiresAt = NewNumericDate (now + refreshExpiry s),
      ID = []\<rparr>"

text \<open>The ledger holds a record under the identifier, and its revoked flag is set.\<close>

definition revoked_in_ledger :: "world \<Rightarrow> string \<Rightarrow> bool" where
  "revoked_in_ledger w jti =
     (case map_of (token_items w) jti of None \<Rightarrow> False | Some item \<Rightarrow> ti_Revoked item)"

subsection \<open>Example configuration and worlds\<close>

text \<open>The default configuration: six digits, ten minutes, five attempts; access tokens
  of fifteen minutes and refresh tokens of seven days.\<close>

definition cfg0 :: OTPConfig where
  "cfg0 = \<lparr>Length = 6, Expiry = 600000000000, MaxAttempts = 5\<rparr>"

definition jwt0 :: JWTService where
  "jwt0 = \<lparr>secretKey = ''0123456789abcdef0123456789abcdef'',
           accessExpiry = 900000000000, refreshExpiry = 604800000000000\<rparr>"

definition h0 :: AuthHandlers where
  "h0 = \<lparr>otpService = cfg0, jwtService = jwt0\<rparr>"

definition phone0 :: string where
  "phone0 = ''+15551234567''"

text \<open>An empty table, a client that never fails, a random source that returns
  1, 2, 3, ... and a UUID generator that returns u, uu, uuu, ...\<close>

definition world0 :: world where
  "world0 = \<lparr>otp_items = Map.empty, otp_test_items = Map.empty, token_items = [],
             revoked_items = Map.empty, user_items = Map.empty,
             faults = (\<lambda>n. False), calls = 0,
             entropy = (\<lambda>n. Some (Suc n)), drawn = 0,
             uuids = (\<lambda>n. replicate (Suc n) (CHR ''u'')), minted = 0\<rparr>"

text \<open>The record of the OTP 123456 issued to \<open>phone0\<close> at time 0, and the world that
  holds it.\<close>

definition item0 :: otp_item where
  "item0 = \<lparr>item_OTPHash = Bcrypt 7 ''123456'', item_Phone = phone0, item_Attempts = 0,
            item_CreatedAt = 0, item_ExpiresAt = 600, item_TTL = 600\<rparr>"

definition world1 :: world where
  "world1 = world0\<lparr>otp_items := [phone0 \<mapsto> item0]\<rparr>"

text \<open>The world after an OTP has been issued to \<open>phone0\<close> at time 0 in \<open>world0\<close>,
  and five wrong candidates for that OTP, one each second.\<close>

definition world2 :: world where
  "world2 = world0\<lparr>otp_items := [phone0 \<mapsto> item0],
             otp_test_items := [phone0 \<mapsto>
               \<lparr>test_OTP = ''123456'', test_ExpiresAt = 600, test_TTL = 600\<rparr>],
             calls := 2, drawn := 7\<rparr>"

definition wrongs0 :: "(time \<times> string) list" where
  "wrongs0 = [(1000000000, ''000000''), (2000000000, ''111111''), (3000000000, ''222222''),
              (4000000000, ''333333''), (5000000000, ''444444'')]"

text \<open>The request that verifies that OTP, and what the handler produces for it at time
  1 s: the user, the access token, the refresh token with its ledger record, and the
  world that holds them.\<close>

definition verify0 :: "VerifyOTPRequest option" where
  "verify0 = Some \<lparr>verify_PhoneNumber = phone0, verify_OTP = ''123456''\<rparr>"

definition access_claims0 :: Claims where
  "access_claims0 = \<lparr>Phone = phone0, Type = ''access'', JTI = ''u'', Subject = phone0,
              IssuedAt = 1, ExpiresAt = 901, ID = []\<rparr>"

definition access0 :: token_string where
  "access0 = SignedString HS256 access_claims0 (secretKey jwt0)"

definition claims0 :: Claims where
  "claims0 = \<lparr>Phone = phone0, Type = ''refresh'', JTI = ''uu'', Subject = phone0,
              IssuedAt = 1, ExpiresAt = 604801, ID = []\<rparr>"

definition token0 :: token_string where
  "token0 = SignedString HS256 claims0 (secretKey jwt0)"

definition refresh0 :: "RefreshTokenRequest option" where
  "refresh0 = Some \<lparr>refresh_RefreshToken = token0\<rparr>"

definition tokenitem0 :: token_item where
  "tokenitem0 = \<lparr>ti_JTI = ''uu'', ti_UserID = phone0, ti_Phone = phone0, ti_FamilyID = ''uuu'',
                 ti_Revoked = False, ti_CreatedAt = 1, ti_ExpiresAt = 604801, ti_TTL = 604801\<rparr>"

definition user0 :: User where
  "user0 = \<lparr>PhoneNumber = phone0, Name = [], user_CreatedAt = 1000000000,
            user_UpdatedAt = 1000000000\<rparr>"

definition world3 :: world where
  "world3 = world2\<lparr>otp_items := Map.empty, user_items := [phone0 \<mapsto> user0],
                   token_items := [(''uu'', tokenitem0)], calls := 7, minted := 3\<rparr>"

text \<open>The same with the seventh call of the client, the write of the ledger record,
  failing.\<close>

definition world2f :: world where
  "world2f = world2\<lparr>faults := (\<lambda>n. n = 6)\<rparr>"

definition world3f :: world where
  "world3f = world2f\<lparr>otp_items := Map.empty, user_items := [phone0 \<mapsto> user0],
                   calls := 7, minted := 3\<rparr>"


text \<open>A configuration with OTPs of three digits, and a request that presents one.\<close>

definition h3 :: AuthHandlers where
  "h3 = \<lparr>otpService = cfg0\<lparr>Length := 3\<rparr>, jwtService = jwt0\<rparr>"

definition verify3 :: "VerifyOTPRequest option" where
  "verify3 = Some \<lparr>verify_PhoneNumber = phone0, verify_OTP = ''123''\<rparr>"

text \<open>Requests whose phone number lacks the leading plus sign.\<close>

definition initiate_no_plus :: "InitiateOTPRequest option" where
  "initiate_no_plus = Some \<lparr>init_PhoneNumber = ''15551234567''\<rparr>"

definition verify_no_plus :: "VerifyOTPRequest option" where
  "verify_no_plus = Some \<lparr>verify_PhoneNumber = ''15551234567'', verify_OTP = ''123456''\<rparr>"

text \<open>Two runs of ledger operations on the record \<open>uu\<close>: one that stores it, revokes it
  and stores it again, and one that leaves storing it alone.\<close>

definition ops_bad :: "(time \<times> ledger_op) list" where
  "ops_bad = [(0, Store ''uu'' phone0 phone0 ''uuu'' 604800000000000),
              (1000000000, Revoke ''uu''),
              (2000000000, Store ''uu'' phone0 phone0 ''uuu'' 604800000000000)]"

definition ops_good :: "(time \<times> ledger_op) list" where
  "ops_good = [(2000000000, Store ''uuuuu'' phone0 phone0 ''uuu'' 604802000000000),
               (3000000000, Revoke ''uu''),
               (4000000000, RevokeFamily ''uuu'')]"

section \<open>Properties\<close>

subsection \<open>Auxiliary facts\<close>

lemma Unix_of_Unix: "Unix (of_Unix s) = s"
  by (simp add: Unix_def of_Unix_def)

lemma remarshal_otp:
  "marshal_otp (unmarshal_otp item\<lparr>Attempts := a\<rparr>) =
     item\<lparr>item_Attempts := a, item_TTL := item_ExpiresAt item\<rparr>"
  by (cases item) (simp add: marshal_otp_def unmarshal_otp_def Unix_of_Unix)

text \<open>What \<^verbatim>\<open>VerifyOTP\<close> returns, and the world it leaves, when no call of the client
  fails.\<close>

lemma VerifyOTP_healthy:
  assumes "\<forall>n. \<not> faults w n"
  shows "OTPService_VerifyOTP cfg now phoneNumber otp w =
    (case otp_items w phoneNumber of
       None \<Rightarrow> ((False, Some OTPNotFoundOrExpired), w\<lparr>calls := calls w + 1\<rparr>)
     | Some item \<Rightarrow>
         if of_Unix (item_ExpiresAt item) < now then
           ((False, Some OTPExpired),
            w\<lparr>otp_items := (otp_items w)(phoneNumber := None), calls := calls w + 2\<rparr>)
         else if MaxAttempts cfg \<le> item_Attempts item then
           ((False, Some MaximumAttemptsExceeded),
            w\<lparr>otp_items := (otp_items w)(phoneNumber := None), calls := calls w + 2\<rparr>)
         else if \<not> bcrypt_CompareHashAndPassword (item_OTPHash item) otp then
           ((False, Some InvalidOTP),
            w\<lparr>otp_items := (otp_items w)(phoneNumber \<mapsto>
                 item\<lparr>item_Attempts := item_Attempts item + 1,
                       item_TTL := item_ExpiresAt item\<rparr>),
              calls := calls w + 2\<rparr>)
         else
           ((True, None),
            w\<lparr>otp_items := (otp_items w)(phoneNumber := None), calls := calls w + 2\<rparr>))"
  using assms
  by (simp add: OTPService_VerifyOTP_def OTPRepository_Get_def OTPRepository_Delete_def
      OTPRepository_Store_def client_call_def After_def remarshal_otp split: option.splits)
    (simp_all add: unmarshal_otp_def)

lemma isDigit_digit_char: "d < 10 \<Longrightarrow> isDigit (digit_char d)"
proof -
  assume "d < 10"
  then have "d \<in> {0, 1, 2, 3, 4, 5, 6, 7, 8, 9}" by auto
  then show ?thesis
    by (auto simp: isDigit_def digit_char_def)
qed

lemma generateRandomOTP_loop_Inr:
  "generateRandomOTP_loop n acc w = (Inr otp, w') \<Longrightarrow>
     (\<exists>ds. otp = acc @ ds \<and> length ds = n \<and> list_all isDigit ds) \<and>
     w' = w\<lparr>drawn := drawn w + n\<rparr>"
proof (induction n arbitrary: acc w)
  case 0
  then show ?case by simp
next
  case (Suc n)
  then show ?case
    by (auto simp: rand_Int10_def rand_Read_def isDigit_digit_char
        split: option.splits prod.splits sum.splits dest!: Suc.IH)
qed

lemma generateRandomOTP_Inr:
  "generateRandomOTP len w = (Inr otp, w') \<Longrightarrow>
     length otp = nat len \<and> list_all isDigit otp \<and> w' = w\<lparr>drawn := drawn w + nat len\<rparr>"
  by (auto simp: generateRandomOTP_def dest!: generateRandomOTP_loop_Inr)

text \<open>A successful \<^verbatim>\<open>GenerateOTP\<close> has put the record of the returned code, with no
  attempt counted, in the place of whatever the phone number had.\<close>

lemma GenerateOTP_Inr:
  assumes "OTPService_GenerateOTP cfg now phoneNumber w = (Inr otp, w')"
  shows "\<exists>salt. otp_items w' = (otp_items w)(phoneNumber \<mapsto>
            \<lparr>item_OTPHash = Bcrypt salt otp, item_Phone = phoneNumber, item_Attempts = 0,
             item_CreatedAt = Unix now, item_ExpiresAt = Unix (now + Expiry cfg),
             item_TTL = Unix (now + Expiry cfg)\<rparr>)"
    and "faults w' = faults w"
    and "length otp = nat (Length cfg)" and "list_all isDigit otp"
  using assms
  by (auto simp: OTPService_GenerateOTP_def bcrypt_GenerateFromPassword_def rand_Read_def
      OTPRepository_Store_def OTPRepository_StoreTestOTP_def client_call_def marshal_otp_def
      Let_def
      split: prod.splits sum.splits option.splits if_splits bool.splits
      dest!: generateRandomOTP_Inr)

text \<open>A run of wrong candidates against a live record, while the counter stays within
  \<open>MaxAttempts\<close>: every call fails with the mismatch error and the record stays, its
  counter raised by the number of calls.\<close>

lemma wrong_run:
  assumes "\<forall>n. \<not> faults w n"
    and "otp_items w phoneNumber = Some item"
    and "list_all (\<lambda>(now, otp). \<not> After now (of_Unix (item_ExpiresAt item)) \<and>
            \<not> bcrypt_CompareHashAndPassword (item_OTPHash item) otp) wrongs"
    and "item_Attempts item + int (length wrongs) \<le> MaxAttempts cfg"
  shows "\<exists>w' item'. VerifyOTP_run cfg phoneNumber wrongs w =
            (replicate (length wrongs) (False, Some InvalidOTP), w') \<and>
          (\<forall>n. \<not> faults w' n) \<and>
          otp_items w' phoneNumber = Some item' \<and>
          item_Attempts item' = item_Attempts item + int (length wrongs) \<and>
          item_OTPHash item' = item_OTPHash item \<and>
          item_ExpiresAt item' = item_ExpiresAt item"
  using assms
proof (induction wrongs arbitrary: w item)
  case Nil
  then show ?case by simp
next
  case (Cons a wrongs)
  obtain now otp where a: "a = (now, otp)" by (cases a)
  let ?item = "item\<lparr>item_Attempts := item_Attempts item + 1, item_TTL := item_ExpiresAt item\<rparr>"
  let ?w = "w\<lparr>otp_items := (otp_items w)(phoneNumber \<mapsto> ?item), calls := calls w + 2\<rparr>"
  from Cons.prems a have step: "OTPService_VerifyOTP cfg now phoneNumber otp w =
      ((False, Some InvalidOTP), ?w)"
    by (simp add: VerifyOTP_healthy After_def)
  have "\<exists>w' item'. VerifyOTP_run cfg phoneNumber wrongs ?w =
            (replicate (length wrongs) (False, Some InvalidOTP), w') \<and>
          (\<forall>n. \<not> faults w' n) \<and>
          otp_items w' phoneNumber = Some item' \<and>
          item_Attempts item' = item_Attempts ?item + int (length wrongs) \<and>
          item_OTPHash item' = item_OTPHash ?item \<and>
          item_ExpiresAt item' = item_ExpiresAt ?item"
    using Cons.prems a by (intro Cons.IH) simp_all
  then show ?case
    using step a by auto
qed

text \<open>Once the record is gone, or its counter has reached \<open>MaxAttempts\<close>, every call
  fails and leaves no record.\<close>

lemma dead_step:
  assumes "\<forall>n. \<not> faults w n"
    and "case otp_items w phoneNumber of None \<Rightarrow> True
         | Some item \<Rightarrow> MaxAttempts cfg \<le> item_Attempts item"
  shows "\<exists>err w'. OTPService_VerifyOTP cfg now phoneNumber otp w = ((False, Some err), w') \<and>
           (\<forall>n. \<not> faults w' n) \<and> otp_items w' phoneNumber = None"
  using assms by (auto simp: VerifyOTP_healthy split: option.splits)

lemma dead_run:
  assumes "\<forall>n. \<not> faults w n"
    and "case otp_items w phoneNumber of None \<Rightarrow> True
         | Some item \<Rightarrow> MaxAttempts cfg \<le> item_Attempts item"
  shows "list_all (\<lambda>r. fst r = False \<and> snd r \<noteq> None) (fst (VerifyOTP_run cfg phoneNumber further w)) \<and>
         (further \<noteq> [] \<longrightarrow> otp_items (snd (VerifyOTP_run cfg phoneNumber further w)) phoneNumber = None)"
  using assms
proof (induction further arbitrary: w)
  case Nil
  then show ?case by simp
next
  case (Cons a further)
  obtain now otp where a: "a = (now, otp)" by (cases a)
  from dead_step[OF Cons.prems, of now otp] obtain err w' where
    step: "OTPService_VerifyOTP cfg now phoneNumber otp w = ((False, Some err), w')"
    and w': "\<forall>n. \<not> faults w' n" "otp_items w' phoneNumber = None"
    by blast
  from w' have "list_all (\<lambda>r. fst r = False \<and> snd r \<noteq> None) (fst (VerifyOTP_run cfg phoneNumber further w')) \<and>
         (further \<noteq> [] \<longrightarrow> otp_items (snd (VerifyOTP_run cfg phoneNumber further w')) phoneNumber = None)"
    by (intro Cons.IH) simp_all
  moreover have "further = [] \<Longrightarrow> snd (VerifyOTP_run cfg phoneNumber further w') = w'"
    by simp
  ultimately show ?case
    using step a w' by (cases "further = []") (auto split: prod.splits)
qed

subsection \<open>Strings and request validation\<close>

text \<open>\<^verbatim>\<open>TrimSpace\<close> leaves a string of digits as it is: no white-space rune begins or
  ends with a digit.\<close>

lemma strip_runes_None:
  "find (\<lambda>r. r \<noteq> [] \<and> prefix r s) runes = None \<Longrightarrow> strip_runes runes s = s"
  by (subst strip_runes.simps) simp

lemma strip_runes_Nil: "strip_runes runes [] = []"
  by (rule strip_runes_None) (simp add: find_None_iff)

lemma strip_runes_other_head:
  assumes "c \<notin> set (map hd runes)"
  shows "strip_runes runes (c # s) = c # s"
proof (rule strip_runes_None)
  have "\<not> (r \<noteq> [] \<and> prefix r (c # s))" if "r \<in> set runes" for r
    using assms that by (cases r) (auto simp: image_iff intro: bexI[of _ r])
  then show "find (\<lambda>r. r \<noteq> [] \<and> prefix r (c # s)) runes = None"
    by (simp add: find_None_iff)
qed

lemma digit_heads:
  assumes "isDigit c"
  shows "c \<notin> set (map hd space_runes)" and "c \<notin> set (map hd (map rev space_runes))"
proof -
  from assms consider "c = CHR ''0''" | "c = CHR ''1''" | "c = CHR ''2''" | "c = CHR ''3''"
    | "c = CHR ''4''" | "c = CHR ''5''" | "c = CHR ''6''" | "c = CHR ''7''" | "c = CHR ''8''"
    | "c = CHR ''9''"
    by (auto simp: isDigit_def)
  note digit = this
  from digit show "c \<notin> set (map hd space_runes)"
    by cases (simp_all add: space_runes_def)
  from digit show "c \<notin> set (map hd (map rev space_runes))"
    by cases (simp_all add: space_runes_def)
qed

lemma TrimSpace_digits: "list_all isDigit s \<Longrightarrow> TrimSpace s = s"
proof (cases s rule: rev_cases)
  case Nil
  then show ?thesis
    by (simp add: TrimSpace_def TrimLeft_def TrimRight_def strip_runes_Nil)
next
  case (snoc ys y)
  assume digits: "list_all isDigit s"
  with snoc have y: "isDigit y" by simp
  have left: "TrimLeft s = s"
  proof (cases s)
    case Nil
    then show ?thesis by (simp add: TrimLeft_def strip_runes_Nil)
  next
    case (Cons c cs)
    with digits have "isDigit c" by simp
    from strip_runes_other_head[OF digit_heads(1)[OF this], of cs] Cons show ?thesis
      by (simp add: TrimLeft_def)
  qed
  have "TrimRight s = s"
    using snoc strip_runes_other_head[OF digit_heads(2)[OF y], of "rev ys"]
    by (simp add: TrimRight_def)
  with left show ?thesis by (simp add: TrimSpace_def)
qed

lemma TrimSpace_id:
  assumes "s \<noteq> []" and "hd s \<notin> set (map hd space_runes)"
    and "last s \<notin> set (map hd (map rev space_runes))"
  shows "TrimSpace s = s"
proof -
  from assms(1) obtain c cs where s: "s = c # cs" by (cases s) auto
  from assms(1) obtain ys y where r: "s = ys @ [y]" by (cases s rule: rev_cases) auto
  from strip_runes_other_head[of c space_runes cs] assms(2) s have "TrimLeft s = s"
    by (simp add: TrimLeft_def)
  moreover from strip_runes_other_head[of y "map rev space_runes" "rev ys"] assms(3) r
  have "TrimRight s = s"
    by (simp add: TrimRight_def)
  ultimately show ?thesis by (simp add: TrimSpace_def)
qed

lemma valid_phone_trim:
  assumes "isValidPhoneNumber phone"
  shows "TrimSpace phone = phone" and "HasPrefix phone ''+''"
proof -
  from assms obtain a rest where a: "phone = a # rest"
    by (cases phone) (simp_all add: isValidPhoneNumber_def)
  with assms obtain first digits where rest: "rest = first # digits"
    by (cases rest) (simp_all add: isValidPhoneNumber_def)
  from assms a rest have phone: "phone = CHR ''+'' # first # digits"
    and digits: "digits \<noteq> []" "list_all isDigit digits"
    by (auto simp: isValidPhoneNumber_def)
  from digits have "isDigit (last digits)"
    by (simp add: list_all_iff)
  with phone digits have "last phone \<notin> set (map hd (map rev space_runes))"
    using digit_heads(2) by simp
  moreover from phone have "hd phone \<notin> set (map hd space_runes)"
    by (simp add: space_runes_def)
  ultimately show "TrimSpace phone = phone"
    using phone by (intro TrimSpace_id) simp_all
  from phone show "HasPrefix phone ''+''"
    by (simp add: HasPrefix_def)
qed

text \<open>The expression accepts a plus sign followed by two to fifteen digits of which the
  first is not zero.\<close>

lemma isValidPhoneNumber_iff:
  "isValidPhoneNumber phone \<longleftrightarrow>
     (\<exists>ds. phone = CHR ''+'' # ds \<and> 2 \<le> length ds \<and> length ds \<le> 15 \<and>
           list_all isDigit ds \<and> hd ds \<noteq> CHR ''0'')"
  by (auto simp: isValidPhoneNumber_def isDigit_def split: list.splits)

text \<open>The initiate-OTP handler answers with the phone-format error exactly when the
  trimmed phone number does not match the expression.\<close>

lemma InitiateOTP_rejects_iff:
  "fst (AuthHandlers_InitiateOTP h now (Some req) w) =
     respondWithError 400 ''INVALID_PHONE'' ''Invalid phone number format'' \<longleftrightarrow>
   \<not> isValidPhoneNumber (TrimSpace (init_PhoneNumber req))"
  by (auto simp: AuthHandlers_InitiateOTP_def Let_def respondWithError_def respondWithJSON_def
      split: prod.splits sum.splits)

text \<open>A valid request whose OTP the service refuses is answered 401.\<close>

lemma VerifyOTP_handler_401:
  assumes "isValidPhoneNumber phoneNumber" and "list_all isDigit otp"
    and "4 \<le> length otp" and "length otp \<le> 8"
    and "fst (OTPService_VerifyOTP (otpService h) now phoneNumber otp w) = (False, Some err)"
  shows "fst (AuthHandlers_VerifyOTP h now
                (Some \<lparr>verify_PhoneNumber = phoneNumber, verify_OTP = otp\<rparr>) w) =
         respondWithError 401 ''INVALID_OTP'' ''Invalid or expired OTP''"
  using assms valid_phone_trim[OF assms(1)]
  by (auto simp: AuthHandlers_VerifyOTP_def TrimSpace_digits Let_def split: prod.splits)

subsection \<open>Example runs\<close>

text \<open>Issuing an OTP to \<open>phone0\<close> at time 0 in the empty world.\<close>

lemma issue0: "OTPService_GenerateOTP cfg0 0 phone0 world0 = (Inr ''123456'', world2)"
proof -
  have six: "generateRandomOTP 6 w =
      generateRandomOTP_loop (Suc (Suc (Suc (Suc (Suc (Suc 0)))))) [] w" for w
    by (simp add: generateRandomOTP_def eval_nat_numeral)
  show ?thesis
    by (simp add: OTPService_GenerateOTP_def six rand_Int10_def
        rand_Read_def digit_char_def bcrypt_GenerateFromPassword_def OTPRepository_Store_def
        OTPRepository_StoreTestOTP_def client_call_def marshal_otp_def Unix_def
        cfg0_def world2_def world0_def item0_def phone0_def)
      (simp add: eval_nat_numeral)
qed


lemma issue3:
  "fst (OTPService_GenerateOTP (otpService h3) 0 phone0 world0) = Inr ''123''"
proof -
  have three: "generateRandomOTP 3 w = generateRandomOTP_loop (Suc (Suc (Suc 0))) [] w" for w
    by (simp add: generateRandomOTP_def eval_nat_numeral)
  show ?thesis
    by (simp add: OTPService_GenerateOTP_def three rand_Int10_def
        rand_Read_def digit_char_def bcrypt_GenerateFromPassword_def OTPRepository_Store_def
        OTPRepository_StoreTestOTP_def client_call_def
        h3_def cfg0_def world0_def)
qed

lemma TrimSpace_phone0: "TrimSpace phone0 = phone0"
  by (rule TrimSpace_id) (simp_all add: phone0_def space_runes_def)

lemma TrimSpace_123456: "TrimSpace ''123456'' = ''123456''"
  by (rule TrimSpace_digits) (simp add: isDigit_def)

lemma valid_phone0: "isValidPhoneNumber phone0"
  by (simp add: isValidPhoneNumber_def phone0_def isDigit_def)

lemma login0:
  "AuthHandlers_VerifyOTP h0 1000000000 verify0 world2 =
     (respondWithJSON 200 (VerifyOTPResponse access0 token0 ''Bearer'' 900
        \<lparr>resp_PhoneNumber = phone0, resp_Name = []\<rparr>), world3)"
proof -
  have otp: "OTPService_VerifyOTP cfg0 1000000000 phone0 ''123456'' world2 =
      ((True, None), world2\<lparr>otp_items := Map.empty, calls := 4\<rparr>)"
    by (simp add: VerifyOTP_healthy world2_def world0_def item0_def cfg0_def of_Unix_def)
  show ?thesis
    by (simp add: AuthHandlers_VerifyOTP_def verify0_def TrimSpace_phone0 TrimSpace_123456
        valid_phone0 HasPrefix_def h0_def otp)
      (simp add: phone0_def world2_def world0_def world3_def
        UserRepository_GetOrCreate_def UserRepository_GetByPhoneNumber_def
        UserRepository_Create_def client_call_def
        JWTService_GenerateAccessToken_def uuid_New_def JWTService_VerifyToken_def
        SignedString_def json_claims_def NewNumericDate_def Unix_def of_Unix_def Before_def jwt0_def
        RefreshTokenService_Store_def RefreshTokenRepository_Store_def marshal_token_def
        respondWithJSON_def access0_def access_claims0_def token0_def claims0_def
        user0_def tokenitem0_def Seconds_def Let_def)
qed

lemma login0f:
  "AuthHandlers_VerifyOTP h0 1000000000 verify0 world2f =
     (respondWithJSON 200 (VerifyOTPResponse access0 token0 ''Bearer'' 900
        \<lparr>resp_PhoneNumber = phone0, resp_Name = []\<rparr>), world3f)"
proof -
  have otp: "OTPService_VerifyOTP cfg0 1000000000 phone0 ''123456'' world2f =
      ((True, None), world2f\<lparr>otp_items := Map.empty, calls := 4\<rparr>)"
    by (simp add: OTPService_VerifyOTP_def OTPRepository_Get_def OTPRepository_Delete_def
        client_call_def unmarshal_otp_def After_def
        world2f_def world2_def world0_def item0_def cfg0_def of_Unix_def)
  show ?thesis
    by (simp add: AuthHandlers_VerifyOTP_def verify0_def TrimSpace_phone0 TrimSpace_123456
        valid_phone0 HasPrefix_def h0_def otp)
      (simp add: phone0_def world2f_def world2_def world0_def world3f_def
        UserRepository_GetOrCreate_def UserRepository_GetByPhoneNumber_def
        UserRepository_Create_def client_call_def
        JWTService_GenerateAccessToken_def uuid_New_def JWTService_VerifyToken_def
        SignedString_def json_claims_def NewNumericDate_def Unix_def of_Unix_def Before_def jwt0_def
        RefreshTokenService_Store_def RefreshTokenRepository_Store_def marshal_token_def
        respondWithJSON_def access0_def access_claims0_def token0_def claims0_def
        user0_def tokenitem0_def Seconds_def Let_def)
qed

lemma valid_token0:
  "JWTService_VerifyToken (jwtService h0) 2000000000 token0 = Inr claims0"
  by (simp add: JWTService_VerifyToken_def token0_def SignedString_def json_claims_def h0_def jwt0_def
      claims0_def Before_def of_Unix_def)

text \<open>The two first operations of \<open>ops_bad\<close>, in the empty world.\<close>

lemma ledger0:
  "ledger_run (take 2 ops_bad) world0 =
     world0\<lparr>token_items := [(''uu'',
               \<lparr>ti_JTI = ''uu'', ti_UserID = phone0, ti_Phone = phone0, ti_FamilyID = ''uuu'',
                ti_Revoked = True, ti_CreatedAt = 0, ti_ExpiresAt = 604800,
                ti_TTL = 604800\<rparr>)],
             revoked_items := [''uu'' \<mapsto> \<lparr>rv_RevokedAt = 1, rv_TTL = 604800\<rparr>],
             calls := 4\<rparr>"
  by (simp add: ops_bad_def world0_def RefreshTokenService_Store_def
      RefreshTokenRepository_Store_def RefreshTokenService_Revoke_def
      RefreshTokenService_Get_def RefreshTokenRepository_Get_def
      RefreshTokenRepository_MarkRevoked_def client_call_def marshal_token_def
      unmarshal_token_def Unix_def of_Unix_def)

lemmas refresh_eval =
  AuthHandlers_RefreshToken_def refresh0_def token0_def claims0_def h0_def jwt0_def
  JWTService_VerifyToken_def SignedString_def json_claims_def Before_def of_Unix_def
  RefreshTokenService_IsRevoked_def RefreshTokenRepository_IsRevoked_def
  RefreshTokenService_Get_def RefreshTokenRepository_Get_def
  RefreshTokenService_Revoke_def RefreshTokenRepository_Store_def
  RefreshTokenRepository_MarkRevoked_def RefreshTokenService_Store_def
  JWTService_RefreshTokens_def JWTService_GenerateAccessTokenWithFamily_def
  uuid_New_def NewNumericDate_def Unix_def client_call_def marshal_token_def
  unmarshal_token_def respondWithJSON_def respondWithError_def Let_def

subsection \<open>OTP verification\<close>

text \<open>
  Claim C1. When the table answers every call, \<^verbatim>\<open>VerifyOTP\<close> decides in this order:
  no record for the phone number, not-found error, nothing changed; the current time
  after the record's expiry, expired error and the record deleted; the stored attempt
  counter at or above \<open>MaxAttempts\<close>, attempts-exceeded error and the record deleted;
  the candidate not matching the stored hash, mismatch error and the record stored again
  with its counter one higher; otherwise success and the record deleted.
\<close>

theorem C1_VerifyOTP_decision_order:
  assumes "\<forall>n. \<not> faults w n"
  shows "OTPService_VerifyOTP cfg now phoneNumber otp w =
    (case otp_items w phoneNumber of
       None \<Rightarrow> ((False, Some OTPNotFoundOrExpired), w\<lparr>calls := calls w + 1\<rparr>)
     | Some item \<Rightarrow>
         if After now (of_Unix (item_ExpiresAt item)) then
           ((False, Some OTPExpired),
            w\<lparr>otp_items := (otp_items w)(phoneNumber := None), calls := calls w + 2\<rparr>)
         else if item_Attempts item \<ge> MaxAttempts cfg then
           ((False, Some MaximumAttemptsExceeded),
            w\<lparr>otp_items := (otp_items w)(phoneNumber := None), calls := calls w + 2\<rparr>)
         else if \<not> bcrypt_CompareHashAndPassword (item_OTPHash item) otp then
           ((False, Some InvalidOTP),
            w\<lparr>otp_items := (otp_items w)(phoneNumber \<mapsto>
                 item\<lparr>item_Attempts := item_Attempts item + 1,
                       item_TTL := item_ExpiresAt item\<rparr>),
              calls := calls w + 2\<rparr>)
         else
           ((True, None),
            w\<lparr>otp_items := (otp_items w)(phoneNumber := None), calls := calls w + 2\<rparr>))"
  using VerifyOTP_healthy[OF assms, of cfg now phoneNumber otp]
  unfolding After_def .

theorem C1_VerifyOTP_decision_order_witness:
  "(\<forall>n. \<not> faults world1 n) \<and>
   OTPService_VerifyOTP cfg0 1000000000 phone0 ''000000'' world1 =
     ((False, Some InvalidOTP),
      world1\<lparr>otp_items := [phone0 \<mapsto> item0\<lparr>item_Attempts := 1\<rparr>], calls := 2\<rparr>)"
proof -
  have healthy: "\<forall>n. \<not> faults world1 n"
    by (simp add: world1_def world0_def)
  from C1_VerifyOTP_decision_order[OF healthy, of cfg0 1000000000 phone0 "''000000''"]
  show ?thesis
    by (simp add: world1_def world0_def item0_def cfg0_def After_def of_Unix_def)
qed

text \<open>
  Claim C3. An OTP that \<^verbatim>\<open>GenerateOTP\<close> issued for a phone number (any string, so
  every E.164 number) verifies successfully when it is presented no later than the stored
  expiry, at least one attempt is allowed and the table answers every call. That
  verification deletes the record, and a second verification with the same OTP fails
  with the not-found error; for an E.164 number and a configured length from 4 to 8 the
  handler answers that second request with 401.
\<close>

theorem C3_otp_single_use:
  assumes "\<forall>n. \<not> faults w n"
    and "OTPService_GenerateOTP cfg t0 phoneNumber w = (Inr otp, w1)"
    and "0 < MaxAttempts cfg"
    and "\<not> After t1 (of_Unix (Unix (t0 + Expiry cfg)))"
    and "OTPService_VerifyOTP cfg t1 phoneNumber otp w1 = (r1, w2)"
    and "OTPService_VerifyOTP cfg t2 phoneNumber otp w2 = (r2, w3)"
  shows "r1 = (True, None) \<and> otp_items w2 phoneNumber = None \<and>
         r2 = (False, Some OTPNotFoundOrExpired) \<and>
         (isValidPhoneNumber phoneNumber \<and> 4 \<le> Length cfg \<and> Length cfg \<le> 8 \<longrightarrow>
            fst (AuthHandlers_VerifyOTP \<lparr>otpService = cfg, jwtService = s\<rparr> t2
                   (Some \<lparr>verify_PhoneNumber = phoneNumber, verify_OTP = otp\<rparr>) w2) =
            respondWithError 401 ''INVALID_OTP'' ''Invalid or expired OTP'')"
proof -
  from GenerateOTP_Inr(1,2)[OF assms(2)] assms(1) obtain salt where
    w1: "otp_items w1 phoneNumber = Some
            \<lparr>item_OTPHash = Bcrypt salt otp, item_Phone = phoneNumber, item_Attempts = 0,
             item_CreatedAt = Unix t0, item_ExpiresAt = Unix (t0 + Expiry cfg),
             item_TTL = Unix (t0 + Expiry cfg)\<rparr>"
    and h1: "\<forall>n. \<not> faults w1 n"
    by auto
  from assms(3,4,5) w1 have first: "r1 = (True, None)"
    and w2: "w2 = w1\<lparr>otp_items := (otp_items w1)(phoneNumber := None), calls := calls w1 + 2\<rparr>"
    by (simp_all add: VerifyOTP_healthy[OF h1] After_def)
  from w2 h1 have h2: "\<forall>n. \<not> faults w2 n" and gone: "otp_items w2 phoneNumber = None"
    by simp_all
  from assms(6) gone have second: "r2 = (False, Some OTPNotFoundOrExpired)"
    by (simp add: VerifyOTP_healthy[OF h2])
  have "fst (AuthHandlers_VerifyOTP \<lparr>otpService = cfg, jwtService = s\<rparr> t2
                   (Some \<lparr>verify_PhoneNumber = phoneNumber, verify_OTP = otp\<rparr>) w2) =
            respondWithError 401 ''INVALID_OTP'' ''Invalid or expired OTP''"
    if "isValidPhoneNumber phoneNumber" and "4 \<le> Length cfg" and "Length cfg \<le> 8"
  proof (rule VerifyOTP_handler_401[OF that(1)])
    from GenerateOTP_Inr(3,4)[OF assms(2)] that(2,3)
    show "list_all isDigit otp" and "4 \<le> length otp" and "length otp \<le> 8"
      by simp_all
    from assms(6) second
    show "fst (OTPService_VerifyOTP (otpService \<lparr>otpService = cfg, jwtService = s\<rparr>) t2
                 phoneNumber otp w2) = (False, Some OTPNotFoundOrExpired)"
      by simp
  qed
  with first gone second show ?thesis by simp
qed

theorem C3_otp_single_use_witness:
  "fst (OTPService_GenerateOTP cfg0 0 phone0 world0) = Inr ''123456'' \<and>
   fst (OTPService_VerifyOTP cfg0 1000000000 phone0 ''123456''
          (snd (OTPService_GenerateOTP cfg0 0 phone0 world0))) = (True, None) \<and>
   fst (OTPService_VerifyOTP cfg0 2000000000 phone0 ''123456''
          (snd (OTPService_VerifyOTP cfg0 1000000000 phone0 ''123456''
             (snd (OTPService_GenerateOTP cfg0 0 phone0 world0))))) =
     (False, Some OTPNotFoundOrExpired) \<and>
   fst (AuthHandlers_VerifyOTP h0 2000000000 verify0
          (snd (OTPService_VerifyOTP cfg0 1000000000 phone0 ''123456''
             (snd (OTPService_GenerateOTP cfg0 0 phone0 world0))))) =
     respondWithError 401 ''INVALID_OTP'' ''Invalid or expired OTP''"
proof -
  let ?w1 = "snd (OTPService_GenerateOTP cfg0 0 phone0 world0)"
  let ?v1 = "OTPService_VerifyOTP cfg0 1000000000 phone0 ''123456'' ?w1"
  let ?v2 = "OTPService_VerifyOTP cfg0 2000000000 phone0 ''123456'' (snd ?v1)"
  have a: "\<forall>n. \<not> faults world0 n" by (simp add: world0_def)
  have b: "OTPService_GenerateOTP cfg0 0 phone0 world0 = (Inr ''123456'', ?w1)"
    by (simp add: issue0)
  have c: "0 < MaxAttempts cfg0" by (simp add: cfg0_def)
  have d: "\<not> After 1000000000 (of_Unix (Unix (0 + Expiry cfg0)))"
    by (simp add: After_def of_Unix_def Unix_def cfg0_def)
  have e: "?v1 = (fst ?v1, snd ?v1)" by simp
  have f: "?v2 = (fst ?v2, snd ?v2)" by simp
  have g: "fst (OTPService_GenerateOTP cfg0 0 phone0 world0) = Inr ''123456''"
    by (simp add: issue0)
  have i: "isValidPhoneNumber phone0 \<and> 4 \<le> Length cfg0 \<and> Length cfg0 \<le> 8"
    by (simp add: isValidPhoneNumber_def phone0_def isDigit_def cfg0_def)
  from C3_otp_single_use[OF a b c d e f, of jwt0] g i show ?thesis
    by (simp add: h0_def verify0_def)
qed

text \<open>
  Claim C4, as amended. For a phone number with a live record, when the table answers
  every call: each verification with a wrong candidate fails with the mismatch error and
  raises the attempt counter by one. After the wrong verifications that bring the counter
  to \<open>MaxAttempts\<close> (exactly \<open>MaxAttempts\<close> of them for a fresh record) the record
  is still stored, with its counter at \<open>MaxAttempts\<close>. Every further verification,
  whatever the candidate, fails, and the first of them deletes the record.
\<close>

theorem C4_attempts_exhausted:
  assumes "\<forall>n. \<not> faults w n"
    and "otp_items w phoneNumber = Some item"
    and "list_all (\<lambda>(now, otp). \<not> After now (of_Unix (item_ExpiresAt item)) \<and>
            \<not> bcrypt_CompareHashAndPassword (item_OTPHash item) otp) wrongs"
    and "item_Attempts item + int (length wrongs) = MaxAttempts cfg"
    and "VerifyOTP_run cfg phoneNumber wrongs w = (rs, w1)"
  shows "rs = replicate (length wrongs) (False, Some InvalidOTP) \<and>
         (\<forall>k\<le>length wrongs.
            map_option item_Attempts
              (otp_items (snd (VerifyOTP_run cfg phoneNumber (take k wrongs) w)) phoneNumber) =
            Some (item_Attempts item + int k)) \<and>
         list_all (\<lambda>r. fst r = False \<and> snd r \<noteq> None)
           (fst (VerifyOTP_run cfg phoneNumber further w1)) \<and>
         (further \<noteq> [] \<longrightarrow>
            otp_items (snd (VerifyOTP_run cfg phoneNumber further w1)) phoneNumber = None)"
proof -
  from wrong_run[OF assms(1,2,3), of cfg] assms(4,5) obtain item' where
    rs: "rs = replicate (length wrongs) (False, Some InvalidOTP)"
    and h1: "\<forall>n. \<not> faults w1 n"
    and w1: "otp_items w1 phoneNumber = Some item'"
      "item_Attempts item' = MaxAttempts cfg"
    by auto
  have counter: "map_option item_Attempts
      (otp_items (snd (VerifyOTP_run cfg phoneNumber (take k wrongs) w)) phoneNumber) =
      Some (item_Attempts item + int k)" if "k \<le> length wrongs" for k
  proof -
    have "list_all (\<lambda>(now, otp). \<not> After now (of_Unix (item_ExpiresAt item)) \<and>
            \<not> bcrypt_CompareHashAndPassword (item_OTPHash item) otp) (take k wrongs)"
      using assms(3) by (auto simp: list_all_iff dest: in_set_takeD)
    moreover have "item_Attempts item + int (length (take k wrongs)) \<le> MaxAttempts cfg"
      using assms(4) that by simp
    ultimately show ?thesis
      using wrong_run[OF assms(1,2), of "take k wrongs" cfg] that by auto
  qed
  from w1 have "case otp_items w1 phoneNumber of None \<Rightarrow> True
         | Some item \<Rightarrow> MaxAttempts cfg \<le> item_Attempts item"
    by simp
  from dead_run[OF h1 this, of further] rs counter show ?thesis
    by blast
qed

theorem C4_attempts_exhausted_witness:
  "fst (VerifyOTP_run cfg0 phone0 wrongs0 world1) = replicate 5 (False, Some InvalidOTP) \<and>
   map_option item_Attempts
     (otp_items (snd (VerifyOTP_run cfg0 phone0 (take 3 wrongs0) world1)) phone0) = Some 3 \<and>
   fst (fst (OTPService_VerifyOTP cfg0 6000000000 phone0 ''123456''
               (snd (VerifyOTP_run cfg0 phone0 wrongs0 world1)))) = False \<and>
   otp_items (snd (OTPService_VerifyOTP cfg0 6000000000 phone0 ''123456''
               (snd (VerifyOTP_run cfg0 phone0 wrongs0 world1)))) phone0 = None"
proof -
  let ?run = "VerifyOTP_run cfg0 phone0 wrongs0 world1"
  have a: "\<forall>n. \<not> faults world1 n" by (simp add: world1_def world0_def)
  have b: "otp_items world1 phone0 = Some item0" by (simp add: world1_def)
  have c: "list_all (\<lambda>(now, otp). \<not> After now (of_Unix (item_ExpiresAt item0)) \<and>
            \<not> bcrypt_CompareHashAndPassword (item_OTPHash item0) otp) wrongs0"
    by (simp add: wrongs0_def item0_def After_def of_Unix_def)
  have d: "item_Attempts item0 + int (length wrongs0) = MaxAttempts cfg0"
    by (simp add: wrongs0_def item0_def cfg0_def)
  have e: "?run = (fst ?run, snd ?run)" by simp
  have f: "length wrongs0 = 5" by (simp add: wrongs0_def)
  have g: "(3::nat) \<le> length wrongs0" by (simp add: f)
  note inst = C4_attempts_exhausted[OF a b c d e, of "[(6000000000, ''123456'')]"]
  from inst have "fst ?run = replicate 5 (False, Some InvalidOTP)"
    by (simp add: f)
  moreover from inst g have "map_option item_Attempts
     (otp_items (snd (VerifyOTP_run cfg0 phone0 (take 3 wrongs0) world1)) phone0) = Some 3"
    by (auto simp: item0_def)
  moreover from inst have "fst (fst (OTPService_VerifyOTP cfg0 6000000000 phone0 ''123456''
               (snd ?run))) = False"
    by (simp split: prod.splits)
  moreover from inst have "otp_items (snd (OTPService_VerifyOTP cfg0 6000000000 phone0 ''123456''
               (snd ?run))) phone0 = None"
    by (simp split: prod.splits)
  ultimately show ?thesis by simp
qed

text \<open>
  Claim C4 as stated says the record is deleted after exactly \<open>MaxAttempts\<close>
  consecutive failed verifications. It is not: after five wrong candidates with
  \<open>MaxAttempts = 5\<close> the record is still in the table, its counter at 5.
\<close>

theorem C4_record_kept_counterexample:
  "int (length wrongs0) = MaxAttempts cfg0 \<and>
   VerifyOTP_run cfg0 phone0 wrongs0 world1 =
     ([(False, Some InvalidOTP), (False, Some InvalidOTP), (False, Some InvalidOTP),
       (False, Some InvalidOTP), (False, Some InvalidOTP)],
      world1\<lparr>otp_items := [phone0 \<mapsto> item0\<lparr>item_Attempts := 5\<rparr>], calls := 10\<rparr>) \<and>
   otp_items (snd (VerifyOTP_run cfg0 phone0 wrongs0 world1)) phone0 \<noteq> None"
  by (simp add: wrongs0_def cfg0_def world1_def world0_def item0_def phone0_def
      OTPService_VerifyOTP_def OTPRepository_Get_def OTPRepository_Store_def
      OTPRepository_Delete_def client_call_def unmarshal_otp_def marshal_otp_def
      After_def of_Unix_def Unix_def)

subsection \<open>OTP issuance\<close>



subsection \<open>Token issuer\<close>



subsection \<open>Refresh-token ledger\<close>

text \<open>Each operation of the ledger keeps a set revoked flag set, unless it stores the
  record anew; this holds whichever calls of the client fail.\<close>

lemma repo_Store_keeps:
  assumes "revoked_in_ledger w j" and "rt_JTI tokenData \<noteq> j \<or> rt_Revoked tokenData"
  shows "revoked_in_ledger (snd (RefreshTokenRepository_Store tokenData w)) j"
  using assms
  by (auto simp: revoked_in_ledger_def RefreshTokenRepository_Store_def client_call_def
      update_conv' marshal_token_def split: bool.splits)

lemma Get_keeps:
  "RefreshTokenService_Get jti w = (r, w1) \<Longrightarrow> token_items w1 = token_items w"
  by (auto simp: RefreshTokenService_Get_def RefreshTokenRepository_Get_def client_call_def
      split: bool.splits option.splits)

lemma MarkRevoked_keeps:
  "token_items (snd (RefreshTokenRepository_MarkRevoked now jti expiresAt w)) = token_items w"
  by (auto simp: RefreshTokenRepository_MarkRevoked_def client_call_def split: bool.splits)

lemma Revoke_keeps:
  assumes "revoked_in_ledger w j"
  shows "revoked_in_ledger (snd (RefreshTokenService_Revoke now jti w)) j"
proof -
  obtain r w1 where get: "RefreshTokenService_Get jti w = (r, w1)"
    by (cases "RefreshTokenService_Get jti w")
  from Get_keeps[OF get] assms have w1: "revoked_in_ledger w1 j"
    by (simp add: revoked_in_ledger_def)
  show ?thesis
  proof (cases r)
    case (Inl err)
    with get w1 show ?thesis by (simp add: RefreshTokenService_Revoke_def)
  next
    case (Inr tokenData)
    obtain e w2 where store:
      "RefreshTokenRepository_Store (tokenData\<lparr>rt_Revoked := True\<rparr>) w1 = (e, w2)"
      by (cases "RefreshTokenRepository_Store (tokenData\<lparr>rt_Revoked := True\<rparr>) w1")
    from repo_Store_keeps[OF w1, of "tokenData\<lparr>rt_Revoked := True\<rparr>"] store
    have w2: "revoked_in_ledger w2 j" by simp
    show ?thesis
    proof (cases e)
      case None
      with get Inr store w2 MarkRevoked_keeps[of now jti "rt_ExpiresAt tokenData" w2]
      show ?thesis
        by (auto simp: RefreshTokenService_Revoke_def revoked_in_ledger_def
            split: prod.splits option.splits)
    next
      case (Some err)
      with get Inr store w2 show ?thesis by (simp add: RefreshTokenService_Revoke_def)
    qed
  qed
qed

lemma RevokeFamily_loop_keeps:
  "revoked_in_ledger w j \<Longrightarrow> revoked_in_ledger (RevokeFamily_loop now tokens w) j"
  by (induction tokens arbitrary: w) (simp_all add: Revoke_keeps)

lemma RevokeFamily_keeps:
  assumes "revoked_in_ledger w j"
  shows "revoked_in_ledger (snd (RefreshTokenService_RevokeFamily now familyID w)) j"
proof -
  have "revoked_in_ledger (w\<lparr>calls := n\<rparr>) j" for n
    using assms by (simp add: revoked_in_ledger_def)
  then show ?thesis
    by (auto simp: RefreshTokenService_RevokeFamily_def RefreshTokenRepository_GetByFamilyID_def
        client_call_def RevokeFamily_loop_keeps split: bool.splits)
qed

lemma Store_keeps:
  assumes "revoked_in_ledger w j" and "jti \<noteq> j"
  shows "revoked_in_ledger
           (snd (RefreshTokenService_Store now jti userID phone familyID expiresAt w)) j"
  using assms by (simp add: RefreshTokenService_Store_def repo_Store_keeps)

lemma ledger_step_keeps:
  assumes "revoked_in_ledger w j" and "\<not> stores_jti j op"
  shows "revoked_in_ledger (ledger_step op w) j"
proof (cases op)
  case (Pair now lop)
  with assms show ?thesis
    by (cases lop) (simp_all add: Store_keeps Revoke_keeps RevokeFamily_keeps)
qed

text \<open>
  Claim C8, as amended. Once the record stored under a JTI has its revoked flag set, the
  flag stays set through every run of revoke and revoke-family operations and of store
  operations for other JTIs, whichever calls of the client fail.
\<close>

theorem C8_revoked_flag_monotonic:
  assumes "revoked_in_ledger w jti" and "list_all (\<lambda>op. \<not> stores_jti jti op) ops"
  shows "revoked_in_ledger (ledger_run ops w) jti"
  using assms by (induction ops arbitrary: w) (simp_all add: ledger_step_keeps)

theorem C8_revoked_flag_monotonic_witness:
  "revoked_in_ledger (ledger_run (take 2 ops_bad) world0) ''uu'' \<and>
   list_all (\<lambda>op. \<not> stores_jti ''uu'' op) ops_good \<and>
   revoked_in_ledger (ledger_run ops_good (ledger_run (take 2 ops_bad) world0)) ''uu''"
proof -
  have a: "revoked_in_ledger (ledger_run (take 2 ops_bad) world0) ''uu''"
    by (simp add: ledger0 revoked_in_ledger_def)
  have b: "list_all (\<lambda>op. \<not> stores_jti ''uu'' op) ops_good"
    by (simp add: ops_good_def)
  from C8_revoked_flag_monotonic[OF a b] a b show ?thesis by simp
qed

text \<open>
  Claim C8 as stated counts store among the operations that never write the flag back to
  false. \<^verbatim>\<open>Store\<close> is an unconditional put of a record with \<^verbatim>\<open>Revoked: false\<close>:
  storing a revoked JTI again clears its flag.
\<close>

theorem C8_store_resets_flag_counterexample:
  "revoked_in_ledger (ledger_run (take 2 ops_bad) world0) ''uu'' \<and>
   \<not> revoked_in_ledger (ledger_run ops_bad world0) ''uu''"
  by (simp add: ops_bad_def world0_def revoked_in_ledger_def RefreshTokenService_Store_def
      RefreshTokenRepository_Store_def RefreshTokenService_Revoke_def
      RefreshTokenService_Get_def RefreshTokenRepository_Get_def
      RefreshTokenRepository_MarkRevoked_def client_call_def marshal_token_def
      unmarshal_token_def Unix_def of_Unix_def)

subsection \<open>Request validation\<close>

text \<open>
  Claim C10. The verify-OTP handler answers 400, with the world untouched and so before
  any call of the table, whenever the trimmed candidate has fewer than 4 or more than 8
  characters, whatever the configuration (the code is that of the OTP-format error, or
  that of the phone-format error when the phone number is rejected first). An OTP that
  \<^verbatim>\<open>GenerateOTP\<close> issued under a configured length outside 4 to 8 has that length and
  is therefore always answered so.
\<close>

theorem C10_otp_length_boundary:
  "(length (TrimSpace (verify_OTP req)) < 4 \<or> length (TrimSpace (verify_OTP req)) > 8 \<longrightarrow>
      (\<exists>code message.
         AuthHandlers_VerifyOTP h now (Some req) w = (respondWithError 400 code message, w) \<and>
         (code = ''INVALID_PHONE'' \<or> code = ''INVALID_OTP''))) \<and>
   ((Length (otpService h) < 4 \<or> Length (otpService h) > 8) \<and>
    OTPService_GenerateOTP (otpService h) t0 phoneNumber w0 = (Inr otp, w1) \<and>
    verify_OTP req = otp \<longrightarrow>
      (\<exists>code message.
         AuthHandlers_VerifyOTP h now (Some req) w = (respondWithError 400 code message, w) \<and>
         (code = ''INVALID_PHONE'' \<or> code = ''INVALID_OTP'')))"
proof -
  have bound: "\<exists>code message.
         AuthHandlers_VerifyOTP h now (Some req) w = (respondWithError 400 code message, w) \<and>
         (code = ''INVALID_PHONE'' \<or> code = ''INVALID_OTP'')"
    if "length (TrimSpace (verify_OTP req)) < 4 \<or> length (TrimSpace (verify_OTP req)) > 8"
    using that by (auto simp: AuthHandlers_VerifyOTP_def Let_def)
  moreover have "length (TrimSpace otp) < 4 \<or> length (TrimSpace otp) > 8"
    if "Length (otpService h) < 4 \<or> Length (otpService h) > 8"
      and "OTPService_GenerateOTP (otpService h) t0 phoneNumber w0 = (Inr otp, w1)"
    using GenerateOTP_Inr(3,4)[OF that(2)] that(1) by (auto simp: TrimSpace_digits)
  ultimately show ?thesis by blast
qed

theorem C10_otp_length_boundary_witness:
  "Length (otpService h3) < 4 \<and>
   fst (OTPService_GenerateOTP (otpService h3) 0 phone0 world0) = Inr ''123'' \<and>
   length (TrimSpace ''123'') < 4 \<and>
   fst (fst (AuthHandlers_VerifyOTP h3 1000000000 verify3 world2)) = 400 \<and>
   snd (AuthHandlers_VerifyOTP h3 1000000000 verify3 world2) = world2"
proof -
  let ?g = "OTPService_GenerateOTP (otpService h3) 0 phone0 world0"
  have a: "Length (otpService h3) < 4" by (simp add: h3_def cfg0_def)
  have b: "?g = (Inr ''123'', snd ?g)"
    using issue3 by (cases ?g) simp
  have c: "length (TrimSpace ''123'') < 4"
    by (simp add: TrimSpace_digits isDigit_def)
  from C10_otp_length_boundary[of "\<lparr>verify_PhoneNumber = phone0, verify_OTP = ''123''\<rparr>"
      h3 1000000000 world2 0 phone0 world0 "''123''" "snd ?g"] a b c issue3
  show ?thesis
    by (auto simp: verify3_def respondWithError_def respondWithJSON_def)
qed

text \<open>
  Claim C7 has the initiate-OTP handler prepend a missing plus sign and then accept the
  number. The handler validates the trimmed phone number before it prepends the sign, so
  a number that is valid except for the missing plus sign is answered 400
  \<^verbatim>\<open>INVALID_PHONE\<close> in every world; with the plus sign the number is valid, and the
  verify-OTP handler, which prepends the sign before it validates, accepts the same
  number.
\<close>

theorem C7_InitiateOTP_validates_before_normalizing:
  "AuthHandlers_InitiateOTP h now initiate_no_plus w =
     (respondWithError 400 ''INVALID_PHONE'' ''Invalid phone number format'', w) \<and>
   isValidPhoneNumber (''+'' @ ''15551234567'') \<and>
   fst (fst (AuthHandlers_VerifyOTP h0 1000000000 verify_no_plus world2)) = 200"
proof -
  have trim: "TrimSpace ''15551234567'' = ''15551234567''"
    by (rule TrimSpace_digits) (simp add: isDigit_def)
  have invalid: "\<not> isValidPhoneNumber ''15551234567''"
    by (simp add: isValidPhoneNumber_def)
  have first: "AuthHandlers_InitiateOTP h now initiate_no_plus w =
     (respondWithError 400 ''INVALID_PHONE'' ''Invalid phone number format'', w)"
    by (simp add: AuthHandlers_InitiateOTP_def initiate_no_plus_def trim invalid)
  have valid: "isValidPhoneNumber (''+'' @ ''15551234567'')"
    using valid_phone0 by (simp add: phone0_def)
  have otp: "OTPService_VerifyOTP cfg0 1000000000 ''+15551234567'' ''123456'' world2 =
      ((True, None), world2\<lparr>otp_items := Map.empty, calls := 4\<rparr>)"
    by (simp add: VerifyOTP_healthy world2_def world0_def item0_def cfg0_def of_Unix_def
        phone0_def)
  have "AuthHandlers_VerifyOTP h0 1000000000 verify_no_plus world2 =
     (respondWithJSON 200 (VerifyOTPResponse access0 token0 ''Bearer'' 900
        \<lparr>resp_PhoneNumber = phone0, resp_Name = []\<rparr>), world3)"
    by (simp add: AuthHandlers_VerifyOTP_def verify_no_plus_def trim TrimSpace_123456
        valid_phone0[unfolded phone0_def] HasPrefix_def h0_def otp)
      (simp add: phone0_def world2_def world0_def world3_def
        UserRepository_GetOrCreate_def UserRepository_GetByPhoneNumber_def
        UserRepository_Create_def client_call_def
        JWTService_GenerateAccessToken_def uuid_New_def JWTService_VerifyToken_def
        SignedString_def json_claims_def NewNumericDate_def Unix_def of_Unix_def Before_def jwt0_def
        RefreshTokenService_Store_def RefreshTokenRepository_Store_def marshal_token_def
        respondWithJSON_def access0_def access_claims0_def token0_def claims0_def
        user0_def tokenitem0_def Seconds_def Let_def)
  then have "fst (fst (AuthHandlers_VerifyOTP h0 1000000000 verify_no_plus world2)) = 200"
    by (simp add: respondWithJSON_def)
  with first valid show ?thesis by simp
qed

theorem C7_InitiateOTP_validates_before_normalizing_witness:
  "AuthHandlers_InitiateOTP h0 0 initiate_no_plus world0 =
     (respondWithError 400 ''INVALID_PHONE'' ''Invalid phone number format'', world0)"
  using C7_InitiateOTP_validates_before_normalizing[of h0 0 world0] by simp

subsection \<open>Refresh flow\<close>

text \<open>A token minted with a refresh lifetime of at least one second is not yet expired
  at the instant it is minted.\<close>

lemma fresh_not_expired:
  assumes "1000000000 \<le> e"
  shows "Before now (of_Unix (NewNumericDate (now + e)))"
proof -
  have "(now + e) mod 1000000000 < 1000000000" by simp
  moreover have "(now + e) div 1000000000 * 1000000000 = now + e - (now + e) mod 1000000000"
    by (simp add: minus_mod_eq_div_mult)
  ultimately show ?thesis
    using assms by (simp add: Before_def of_Unix_def NewNumericDate_def Unix_def)
qed

lemma RefreshTokens_valid:
  assumes "JWTService_VerifyToken s now tok = Inr claims" and "Type claims = ''refresh''"
  shows "JWTService_RefreshTokens s now tok familyID w =
           JWTService_GenerateAccessTokenWithFamily s now (Phone claims) familyID w"
  using assms by (simp add: JWTService_RefreshTokens_def)

lemma WithFamily_result:
  "\<exists>access expires.
     JWTService_GenerateAccessTokenWithFamily s now phone familyID w =
       (Inr (\<lparr>AccessToken = access,
               RefreshToken = SignedString HS256 (refreshClaims_of s now phone w) (secretKey s),
               TokenType = ''Bearer'', ExpiresIn = expires\<rparr>,
             if familyID = [] then uuids w (Suc (Suc (minted w))) else familyID),
        w\<lparr>minted := (if familyID = [] then 3 else 2) + minted w\<rparr>)"
  by (simp add: JWTService_GenerateAccessTokenWithFamily_def uuid_New_def Let_def
      refreshClaims_of_def SignedString_def json_claims_def)

lemma VerifyToken_new_refresh:
  assumes "1000000000 \<le> refreshExpiry s"
  shows "JWTService_VerifyToken s now
           (SignedString HS256 (refreshClaims_of s now phone w) (secretKey s)) =
         Inr (refreshClaims_of s now phone w)"
  using fresh_not_expired[OF assms, of now]
  by (simp add: JWTService_VerifyToken_def SignedString_def json_claims_def refreshClaims_of_def)




text \<open>The ledger operations and the refresh handler when no call of the client fails.\<close>

lemma remarshal_token:
  "marshal_token (unmarshal_token item\<lparr>rt_Revoked := True\<rparr>) =
     item\<lparr>ti_Revoked := True, ti_TTL := ti_ExpiresAt item\<rparr>"
  by (cases item) (simp add: marshal_token_def unmarshal_token_def Unix_of_Unix)

lemma IsRevoked_healthy:
  "\<forall>n. \<not> faults w n \<Longrightarrow>
   RefreshTokenService_IsRevoked jti w =
     (Inr (revoked_items w jti \<noteq> None), w\<lparr>calls := Suc (calls w)\<rparr>)"
  by (simp add: RefreshTokenService_IsRevoked_def RefreshTokenRepository_IsRevoked_def
      client_call_def)

lemma Get_healthy:
  "\<forall>n. \<not> faults w n \<Longrightarrow>
   RefreshTokenService_Get jti w =
     (case map_of (token_items w) jti of
        None \<Rightarrow> Inl RefreshTokenNotFound
      | Some item \<Rightarrow> Inr (unmarshal_token item), w\<lparr>calls := Suc (calls w)\<rparr>)"
  by (simp add: RefreshTokenService_Get_def RefreshTokenRepository_Get_def
      client_call_def split: option.splits)

lemma Revoke_healthy:
  "\<forall>n. \<not> faults w n \<Longrightarrow> map_of (token_items w) jti = Some item \<Longrightarrow>
   RefreshTokenService_Revoke now jti w =
     (None,
      w\<lparr>token_items := AList.update (ti_JTI item)
                          (item\<lparr>ti_Revoked := True, ti_TTL := ti_ExpiresAt item\<rparr>)
                          (token_items w),
        revoked_items := (revoked_items w)(jti \<mapsto>
                          \<lparr>rv_RevokedAt = Unix now, rv_TTL = ti_ExpiresAt item\<rparr>),
        calls := calls w + 3\<rparr>)"
  by (simp add: RefreshTokenService_Revoke_def Get_healthy RefreshTokenRepository_Store_def
      RefreshTokenRepository_MarkRevoked_def client_call_def remarshal_token)
    (simp add: unmarshal_token_def Unix_of_Unix)

lemma Store_healthy:
  "\<forall>n. \<not> faults w n \<Longrightarrow>
   RefreshTokenService_Store now jti userID phone familyID expiresAt w =
     (None,
      w\<lparr>token_items := AList.update jti
           \<lparr>ti_JTI = jti, ti_UserID = userID, ti_Phone = phone, ti_FamilyID = familyID,
            ti_Revoked = False, ti_CreatedAt = Unix now, ti_ExpiresAt = Unix expiresAt,
            ti_TTL = Unix expiresAt\<rparr> (token_items w),
        calls := Suc (calls w)\<rparr>)"
  by (simp add: RefreshTokenService_Store_def RefreshTokenRepository_Store_def
      client_call_def marshal_token_def)

lemma refresh_healthy:
  assumes "\<forall>n. \<not> faults w n"
    and "JWTService_VerifyToken (jwtService h) now (refresh_RefreshToken req) = Inr claims"
    and "Type claims = ''refresh''"
    and "revoked_items w (JTI claims) = None"
    and "map_of (token_items w) (JTI claims) = Some item"
    and "1000000000 \<le> refreshExpiry (jwtService h)"
  shows "\<exists>access expin w'.
     AuthHandlers_RefreshToken h now (Some req) w =
       (respondWithJSON 200 (RefreshTokenResponse access
          (SignedString HS256 (refreshClaims_of (jwtService h) now (Phone claims) w)
             (secretKey (jwtService h))) ''Bearer'' expin), w') \<and>
     faults w' = faults w \<and>
     revoked_items w' = (revoked_items w)(JTI claims \<mapsto>
                          \<lparr>rv_RevokedAt = Unix now, rv_TTL = ti_ExpiresAt item\<rparr>) \<and>
     map_of (token_items w') =
       (map_of (token_items w))
         (ti_JTI item \<mapsto> item\<lparr>ti_Revoked := True, ti_TTL := ti_ExpiresAt item\<rparr>,
          uuids w (Suc (minted w)) \<mapsto>
            \<lparr>ti_JTI = uuids w (Suc (minted w)), ti_UserID = Phone claims,
             ti_Phone = Phone claims,
             ti_FamilyID = (if ti_FamilyID item = [] then uuids w (Suc (Suc (minted w)))
                            else ti_FamilyID item),
             ti_Revoked = False, ti_CreatedAt = Unix now,
             ti_ExpiresAt = Unix (now + refreshExpiry (jwtService h)),
             ti_TTL = Unix (now + refreshExpiry (jwtService h))\<rparr>)"
proof -
  from assms(2) have tok: "refresh_RefreshToken req \<noteq> NotAToken []"
    by (auto simp: JWTService_VerifyToken_def)
  let ?w2 = "w\<lparr>calls := Suc (Suc (calls w))\<rparr>"
  let ?w3 = "snd (RefreshTokenService_Revoke now (JTI claims) ?w2)"
  have w3: "?w3 = w\<lparr>token_items := AList.update (ti_JTI item)
                          (item\<lparr>ti_Revoked := True, ti_TTL := ti_ExpiresAt item\<rparr>)
                          (token_items w),
        revoked_items := (revoked_items w)(JTI claims \<mapsto>
                          \<lparr>rv_RevokedAt = Unix now, rv_TTL = ti_ExpiresAt item\<rparr>),
        calls := calls w + 5\<rparr>"
    using assms(1,5) by (simp add: Revoke_healthy)
  have fam: "rt_FamilyID (unmarshal_token item) = ti_FamilyID item"
    by (simp add: unmarshal_token_def)
  from WithFamily_result[of "jwtService h" now "Phone claims" "ti_FamilyID item" ?w3]
  obtain access expires where gen:
    "JWTService_GenerateAccessTokenWithFamily (jwtService h) now (Phone claims)
       (ti_FamilyID item) ?w3 =
       (Inr (\<lparr>AccessToken = access,
               RefreshToken = SignedString HS256
                 (refreshClaims_of (jwtService h) now (Phone claims) ?w3)
                 (secretKey (jwtService h)),
               TokenType = ''Bearer'', ExpiresIn = expires\<rparr>,
             if ti_FamilyID item = [] then uuids ?w3 (Suc (Suc (minted ?w3)))
             else ti_FamilyID item),
        ?w3\<lparr>minted := (if ti_FamilyID item = [] then 3 else 2) + minted ?w3\<rparr>)"
    by blast
  have same: "refreshClaims_of (jwtService h) now (Phone claims) ?w3 =
      refreshClaims_of (jwtService h) now (Phone claims) w"
    by (simp add: w3 refreshClaims_of_def)
  have handler: "AuthHandlers_RefreshToken h now (Some req) w =
      (respondWithJSON 200 (RefreshTokenResponse access
          (SignedString HS256 (refreshClaims_of (jwtService h) now (Phone claims) w)
             (secretKey (jwtService h))) ''Bearer'' expires),
       snd (RefreshTokenService_Store now
              (JTI (refreshClaims_of (jwtService h) now (Phone claims) w))
              (Phone claims) (Phone claims)
              (if ti_FamilyID item = [] then uuids ?w3 (Suc (Suc (minted ?w3)))
               else ti_FamilyID item)
              (of_Unix (ExpiresAt (refreshClaims_of (jwtService h) now (Phone claims) w)))
              (?w3\<lparr>minted := (if ti_FamilyID item = [] then 3 else 2) + minted ?w3\<rparr>)))"
    using assms tok
    by (simp add: AuthHandlers_RefreshToken_def IsRevoked_healthy Get_healthy fam
        RefreshTokens_valid[OF assms(2,3)] gen same VerifyToken_new_refresh[OF assms(6)])
  show ?thesis
    unfolding handler using assms(1)
    by (auto simp: Store_healthy w3 refreshClaims_of_def update_conv' NewNumericDate_def
        Unix_of_Unix)
qed

text \<open>
  Claim C2, as amended. When the table answers every call and refresh tokens live at
  least one second, a refresh that presents a valid, not yet revoked refresh token whose
  ledger record is found returns a refresh token with another JTI (the UUID generator
  never repeats a value, and the presented JTI is one it produced earlier), sets the
  revoked flag of the presented token's record and writes its revocation marker; every
  later refresh with the presented token is answered 401, as revoked while the token has
  not expired.
\<close>

theorem C2_rotation_revokes_presented_token:
  assumes "\<forall>n. \<not> faults w n"
    and "JWTService_VerifyToken (jwtService h) now (refresh_RefreshToken req) = Inr claims"
    and "Type claims = ''refresh''"
    and "revoked_items w (JTI claims) = None"
    and "map_of (token_items w) (JTI claims) = Some item" and "ti_JTI item = JTI claims"
    and "inj (uuids w)" and "\<exists>k<minted w. uuids w k = JTI claims"
    and "1000000000 \<le> refreshExpiry (jwtService h)"
    and "AuthHandlers_RefreshToken h now (Some req) w = (resp, w')"
  shows "(\<exists>access refresh expin newClaims.
            resp = respondWithJSON 200 (RefreshTokenResponse access refresh ''Bearer'' expin) \<and>
            JWTService_VerifyToken (jwtService h) now refresh = Inr newClaims \<and>
            Type newClaims = ''refresh'' \<and> JTI newClaims \<noteq> JTI claims) \<and>
         revoked_items w' (JTI claims) \<noteq> None \<and>
         (\<exists>item'. map_of (token_items w') (JTI claims) = Some item' \<and> ti_Revoked item') \<and>
         (\<forall>now2. fst (AuthHandlers_RefreshToken h now2 (Some req) w') =
            (if Before now2 (of_Unix (ExpiresAt claims))
             then respondWithError 401 ''TOKEN_REVOKED'' ''Refresh token has been revoked''
             else respondWithError 401 ''INVALID_TOKEN'' ''Invalid refresh token''))"
proof -
  let ?new = "refreshClaims_of (jwtService h) now (Phone claims) w"
  have fresh: "uuids w (Suc (minted w)) \<noteq> JTI claims"
  proof
    assume same: "uuids w (Suc (minted w)) = JTI claims"
    from assms(8) obtain k where k: "k < minted w" "uuids w k = JTI claims" by blast
    with same have "uuids w k = uuids w (Suc (minted w))" by simp
    with assms(7) have "k = Suc (minted w)" by (rule injD)
    with k(1) show False by simp
  qed
  from refresh_healthy[OF assms(1-5,9)] assms(10) obtain access expin where
    resp: "resp = respondWithJSON 200 (RefreshTokenResponse access
          (SignedString HS256 ?new (secretKey (jwtService h))) ''Bearer'' expin)"
    and faults: "faults w' = faults w"
    and marker: "revoked_items w' = (revoked_items w)(JTI claims \<mapsto>
                          \<lparr>rv_RevokedAt = Unix now, rv_TTL = ti_ExpiresAt item\<rparr>)"
    and ledger: "map_of (token_items w') =
       (map_of (token_items w))
         (ti_JTI item \<mapsto> item\<lparr>ti_Revoked := True, ti_TTL := ti_ExpiresAt item\<rparr>,
          uuids w (Suc (minted w)) \<mapsto>
            \<lparr>ti_JTI = uuids w (Suc (minted w)), ti_UserID = Phone claims,
             ti_Phone = Phone claims,
             ti_FamilyID = (if ti_FamilyID item = [] then uuids w (Suc (Suc (minted w)))
                            else ti_FamilyID item),
             ti_Revoked = False, ti_CreatedAt = Unix now,
             ti_ExpiresAt = Unix (now + refreshExpiry (jwtService h)),
             ti_TTL = Unix (now + refreshExpiry (jwtService h))\<rparr>)"
    by auto
  have new: "JWTService_VerifyToken (jwtService h) now
      (SignedString HS256 ?new (secretKey (jwtService h))) = Inr ?new"
    by (rule VerifyToken_new_refresh[OF assms(9)])
  have "Type ?new = ''refresh''" and "JTI ?new \<noteq> JTI claims"
    using fresh by (simp_all add: refreshClaims_of_def)
  with resp new have first: "\<exists>access refresh expin newClaims.
            resp = respondWithJSON 200 (RefreshTokenResponse access refresh ''Bearer'' expin) \<and>
            JWTService_VerifyToken (jwtService h) now refresh = Inr newClaims \<and>
            Type newClaims = ''refresh'' \<and> JTI newClaims \<noteq> JTI claims"
    by blast
  from marker have revoked: "revoked_items w' (JTI claims) \<noteq> None" by simp
  from ledger fresh assms(6) have flagged:
    "\<exists>item'. map_of (token_items w') (JTI claims) = Some item' \<and> ti_Revoked item'"
    by simp
  obtain m c sg where tok: "refresh_RefreshToken req = Token m c sg"
    using assms(2) by (cases "refresh_RefreshToken req") (auto simp: JWTService_VerifyToken_def)
  from assms(2) tok have parts: "isSigningMethodHMAC m" "sg = HMAC m (secretKey (jwtService h)) c"
    "claims = json_claims c"
    by (auto simp: JWTService_VerifyToken_def split: if_splits)
  have reuse: "fst (AuthHandlers_RefreshToken h now2 (Some req) w') =
            (if Before now2 (of_Unix (ExpiresAt claims))
             then respondWithError 401 ''TOKEN_REVOKED'' ''Refresh token has been revoked''
             else respondWithError 401 ''INVALID_TOKEN'' ''Invalid refresh token'')" for now2
    using tok parts assms(1,3) faults revoked
    by (auto simp: AuthHandlers_RefreshToken_def JWTService_VerifyToken_def IsRevoked_healthy
        json_claims_def)
  from first revoked flagged reuse show ?thesis by blast
qed

theorem C2_rotation_revokes_presented_token_witness:
  "revoked_items (snd (AuthHandlers_RefreshToken h0 2000000000 refresh0 world3)) ''uu'' \<noteq> None \<and>
   revoked_in_ledger (snd (AuthHandlers_RefreshToken h0 2000000000 refresh0 world3)) ''uu'' \<and>
   fst (AuthHandlers_RefreshToken h0 3000000000 refresh0
          (snd (AuthHandlers_RefreshToken h0 2000000000 refresh0 world3))) =
     respondWithError 401 ''TOKEN_REVOKED'' ''Refresh token has been revoked''"
proof -
  let ?run = "AuthHandlers_RefreshToken h0 2000000000 refresh0 world3"
  have a: "\<forall>n. \<not> faults world3 n"
    by (simp add: world3_def world2_def world0_def)
  have b: "JWTService_VerifyToken (jwtService h0) 2000000000
             (refresh_RefreshToken \<lparr>refresh_RefreshToken = token0\<rparr>) = Inr claims0"
    by (simp add: valid_token0)
  have c: "Type claims0 = ''refresh''" by (simp add: claims0_def)
  have d: "revoked_items world3 (JTI claims0) = None"
    by (simp add: world3_def world2_def world0_def)
  have e: "map_of (token_items world3) (JTI claims0) = Some tokenitem0"
    by (simp add: world3_def claims0_def)
  have f: "ti_JTI tokenitem0 = JTI claims0" by (simp add: tokenitem0_def claims0_def)
  have g: "inj (uuids world3)"
    by (simp add: world3_def world2_def world0_def inj_def)
  have "uuids world3 1 = JTI claims0" and "(1::nat) < minted world3"
    by (simp_all add: world3_def world2_def world0_def claims0_def)
  then have i: "\<exists>k<minted world3. uuids world3 k = JTI claims0" by blast
  have j: "1000000000 \<le> refreshExpiry (jwtService h0)" by (simp add: h0_def jwt0_def)
  have k: "AuthHandlers_RefreshToken h0 2000000000
             (Some \<lparr>refresh_RefreshToken = token0\<rparr>) world3 =
           (fst ?run, snd ?run)"
    by (simp add: refresh0_def)
  have l: "Before 3000000000 (of_Unix (ExpiresAt claims0))"
    by (simp add: Before_def of_Unix_def claims0_def)
  from C2_rotation_revokes_presented_token[OF a b c d e f g i j k] l
  show ?thesis
    by (simp add: revoked_in_ledger_def refresh0_def claims0_def) (metis option.simps(5))
qed

text \<open>
  Claim C2 as stated has every refresh revoke the presented token. The handler revokes
  only when it finds the token's ledger record. Here the write of that record failed
  when the pair was issued (the verify-OTP handler answers 200 all the same); the
  refresh then succeeds without writing a revocation marker, and a second refresh with
  the same token succeeds again.
\<close>

theorem C2_missing_record_counterexample:
  "AuthHandlers_VerifyOTP h0 1000000000 verify0 world2f =
     (respondWithJSON 200 (VerifyOTPResponse access0 token0 ''Bearer'' 900
        \<lparr>resp_PhoneNumber = phone0, resp_Name = []\<rparr>), world3f) \<and>
   fst (fst (AuthHandlers_RefreshToken h0 2000000000 refresh0 world3f)) = 200 \<and>
   revoked_items (snd (AuthHandlers_RefreshToken h0 2000000000 refresh0 world3f)) ''uu'' = None \<and>
   fst (fst (AuthHandlers_RefreshToken h0 3000000000 refresh0
               (snd (AuthHandlers_RefreshToken h0 2000000000 refresh0 world3f)))) = 200"
proof -
  have first: "fst (fst (AuthHandlers_RefreshToken h0 2000000000 refresh0 world3f)) = 200"
    by (simp add: refresh_eval world3f_def world2f_def world2_def world0_def phone0_def)
  have marker: "revoked_items (snd (AuthHandlers_RefreshToken h0 2000000000 refresh0 world3f))
      ''uu'' = None"
    by (simp add: refresh_eval world3f_def world2f_def world2_def world0_def phone0_def)
  have second: "fst (fst (AuthHandlers_RefreshToken h0 3000000000 refresh0
               (snd (AuthHandlers_RefreshToken h0 2000000000 refresh0 world3f)))) = 200"
    by (simp add: refresh_eval world3f_def world2f_def world2_def world0_def phone0_def)
  from login0f first marker second show ?thesis by simp
qed

end
